theory Spec2Isabelle
  imports Complex_Main "HOL-Library.Monad_Syntax" "HOL-Library.Product_Lexorder"
    "HOL-Library.Log_Nat"
begin

chapter \<open>Nurthure Monitor: ingestion, alerting, storage and trend aggregation\<close>

text \<open>
  A shallow embedding of the JavaScript sources
  \<^item> \<^verbatim>\<open>src/js/gemini.js\<close> (class \<^verbatim>\<open>ConnectionManager\<close>: the poller and \<^verbatim>\<open>normalizeReading\<close>),
  \<^item> \<^verbatim>\<open>src/js/alerts.js\<close> (class \<^verbatim>\<open>AlertsManager\<close>),
  \<^item> \<^verbatim>\<open>src/unnamed/part_002\<close> (class \<^verbatim>\<open>StorageManager\<close>, on IndexedDB),
  \<^item> \<^verbatim>\<open>src/js/export.js\<close> (class \<^verbatim>\<open>TrendsManager\<close>).

  Conventions of the embedding.
  \<^item> \<^verbatim>\<open>Date.now()\<close> is an argument \<open>now\<close> (integer milliseconds). One synchronous run of a
    method reads the clock several times; the model gives all of them the same value.
  \<^item> A finite JavaScript number is given by its value, a \<^typ>\<open>real\<close>; the three non-finite
    numbers are separate values. Comparisons are exact. Sums, products and quotients of
    numbers are rounded to the nearest double (section \<open>Numbers\<close>). Times in milliseconds
    are integers, whose differences doubles represent exactly.
  \<^item> A thrown exception and a rejected promise are \<open>Inl e\<close> of a sum type.
  \<^item> An \<^verbatim>\<open>async\<close> method is run to completion; requests issued to IndexedDB complete in
    the order in which they were issued.
\<close>

section \<open>JavaScript values\<close>

datatype jsnum = Fin real | NaN | PosInf | NegInf

text \<open>
  The values \<^verbatim>\<open>response.json()\<close> can produce, and \<^verbatim>\<open>undefined\<close>. An object is the list of
  its own properties.
\<close>

datatype jsval =
    Undefined
  | Null
  | Bool bool
  | Num jsnum
  | Str string
  | Arr "jsval list"
  | Obj "(string \<times> jsval) list"

datatype js_error = TypeError | DataError | StorageError

text \<open>
  \<open>js_get v k\<close> is the property read \<^verbatim>\<open>v[k]\<close> on a value that is neither \<^verbatim>\<open>null\<close> nor
  \<^verbatim>\<open>undefined\<close>, for the property names this program reads (\<^verbatim>\<open>timestamp\<close>, \<^verbatim>\<open>respiration\<close>,
  \<^verbatim>\<open>value\<close>, \<^verbatim>\<open>unit\<close>, ...): none of them is an array index, \<^verbatim>\<open>length\<close>, or a name
  inherited from a prototype, so on everything but an object with that own property the read
  gives \<^verbatim>\<open>undefined\<close>.
\<close>

fun js_get :: "jsval \<Rightarrow> string \<Rightarrow> jsval" where
  "js_get (Obj kvs) k = (case map_of kvs k of Some v \<Rightarrow> v | None \<Rightarrow> Undefined)"
| "js_get v k = Undefined"

definition nullish :: "jsval \<Rightarrow> bool" where
  "nullish v = (v = Undefined \<or> v = Null)"

text \<open>\<^verbatim>\<open>v.k\<close> throws a TypeError on \<^verbatim>\<open>null\<close> and \<^verbatim>\<open>undefined\<close>; \<^verbatim>\<open>v?.k\<close> gives \<^verbatim>\<open>undefined\<close> there.\<close>

definition member :: "jsval \<Rightarrow> string \<Rightarrow> js_error + jsval" where
  "member v k = (if nullish v then Inl TypeError else Inr (js_get v k))"

definition opt_member :: "jsval \<Rightarrow> string \<Rightarrow> jsval" where
  "opt_member v k = (if nullish v then Undefined else js_get v k)"

text \<open>Truthiness: \<^verbatim>\<open>undefined\<close>, \<^verbatim>\<open>null\<close>, \<^verbatim>\<open>false\<close>, \<^verbatim>\<open>0\<close>, \<^verbatim>\<open>NaN\<close> and \<^verbatim>\<open>""\<close> are falsy.\<close>

fun truthy :: "jsval \<Rightarrow> bool" where
  "truthy Undefined = False"
| "truthy Null = False"
| "truthy (Bool b) = b"
| "truthy (Num (Fin x)) = (x \<noteq> 0)"
| "truthy (Num NaN) = False"
| "truthy (Num PosInf) = True"
| "truthy (Num NegInf) = True"
| "truthy (Str s) = (s \<noteq> [])"
| "truthy (Arr xs) = True"
| "truthy (Obj kvs) = True"

text \<open>\<^verbatim>\<open>a || b\<close> and \<^verbatim>\<open>a ?? b\<close>.\<close>

definition js_or :: "jsval \<Rightarrow> jsval \<Rightarrow> jsval" where
  "js_or a b = (if truthy a then a else b)"

definition coalesce :: "jsval \<Rightarrow> jsval \<Rightarrow> jsval" where
  "coalesce a b = (if nullish a then b else a)"

section \<open>Reading normalizer (\<^verbatim>\<open>ConnectionManager.normalizeReading\<close>)\<close>

text \<open>
  \<^verbatim>\<open>data.timestamp\<close> is the one read without \<^verbatim>\<open>?.\<close>: it throws when \<open>data\<close> itself is
  \<^verbatim>\<open>null\<close> or \<^verbatim>\<open>undefined\<close>. Every other read is \<^verbatim>\<open>data.x?.y\<close>.
\<close>

definition normalizeReading :: "jsval \<Rightarrow> int \<Rightarrow> js_error + jsval" where
  "normalizeReading data now =
    (if nullish data then Inl TypeError
     else
      (let respiration = js_get data ''respiration'';
           audio = js_get data ''audio'';
           body_temp = js_get data ''body_temp'';
           posture = js_get data ''posture'';
           radar = js_get data ''radar'';
           environment = js_get data ''environment''
       in Inr (Obj [
         (''timestamp'', js_or (js_get data ''timestamp'') (Num (Fin (of_int now)))),
         (''respiration'', Obj [
            (''value'', coalesce (opt_member respiration ''value'') Null),
            (''unit'', js_or (opt_member respiration ''unit'') (Str ''rpm'')),
            (''confidence'', coalesce (opt_member respiration ''confidence'') (Num (Fin 1)))]),
         (''audio'', Obj [
            (''state'', js_or (opt_member audio ''state'') (Str ''unknown'')),
            (''level'', coalesce (opt_member audio ''level'') (Num (Fin 0)))]),
         (''bodyTemp'', Obj [
            (''value'', coalesce (opt_member body_temp ''value'') Null),
            (''unit'', js_or (opt_member body_temp ''unit'') (Str ''C''))]),
         (''posture'', Obj [
            (''state'', js_or (opt_member posture ''state'') (Str ''unknown'')),
            (''confidence'', coalesce (opt_member posture ''confidence'') (Num (Fin 1)))]),
         (''radar'', Obj [
            (''active'', coalesce (opt_member radar ''active'') (Bool False)),
            (''movement'', coalesce (opt_member radar ''movement'') (Num (Fin 0)))]),
         (''environment'', Obj [
            (''temp'', Obj [
               (''value'', coalesce (coalesce (opt_member (opt_member environment ''temp'') ''value'')
                                              (opt_member environment ''temp'')) Null),
               (''unit'', js_or (opt_member (opt_member environment ''temp'') ''unit'') (Str ''C''))]),
            (''co2'', Obj [
               (''value'', coalesce (coalesce (opt_member (opt_member environment ''co2'') ''value'')
                                              (opt_member environment ''co2'')) Null),
               (''unit'', js_or (opt_member (opt_member environment ''co2'') ''unit'') (Str ''ppm''))]),
            (''voc'', Obj [
               (''value'', coalesce (coalesce (opt_member (opt_member environment ''voc'') ''value'')
                                              (opt_member environment ''voc'')) Null)]),
            (''gas'', Obj [
               (''safe'', coalesce (coalesce (opt_member (opt_member environment ''gas'') ''safe'')
                                             (opt_member environment ''gas'')) (Bool True))])])])))"



text \<open>\<open>path r ks\<close> follows the property names \<open>ks\<close> from \<open>r\<close>.\<close>

fun path :: "jsval \<Rightarrow> string list \<Rightarrow> jsval" where
  "path v [] = v"
| "path v (k # ks) = path (js_get v k) ks"




definition env_field :: "jsval \<Rightarrow> string \<Rightarrow> string \<Rightarrow> jsval" where
  "env_field data k sub =
     (let environment = js_get data ''environment''
      in coalesce (opt_member (opt_member environment k) sub) (opt_member environment k))"



section \<open>Connection poller (\<^verbatim>\<open>ConnectionManager\<close>)\<close>

text \<open>
  The poller runs on the event loop: \<^verbatim>\<open>poll()\<close> issues a fetch and is suspended at the
  \<^verbatim>\<open>await\<close>; when the fetch completes the rest of \<^verbatim>\<open>poll()\<close> runs, and its last statement
  arms a timer that calls \<^verbatim>\<open>poll()\<close> again. The model keeps, beside the fields of the
  object, what the event loop holds for it: the timers armed and not yet fired or cleared,
  and the polls suspended at their fetch. Each step below is one uninterrupted run of
  JavaScript code.
\<close>

datatype event =
    Connected string
  | Disconnected string
  | Data jsval
  | Error string nat

text \<open>
  \<open>pollTimer\<close> is the handle \<^verbatim>\<open>setTimeout\<close> returned (a positive number) or \<^verbatim>\<open>null\<close>; it is
  not reset when the timer fires. \<open>in_flight\<close> lists the suspended polls by a request number,
  with the URL the request was sent to. \<open>delivered\<close> is the log of the events emitted, each
  with the URL of the request whose completion emitted it.
\<close>

record poller =
  isConnected :: bool
  piAddress :: string
  piPort :: string
  pollInterval :: int
  currentRetries :: nat
  pollTimer :: "nat option"
  lastReading :: "jsval option"
  next_handle :: nat
  pending :: "nat list"
  next_request :: nat
  in_flight :: "(nat \<times> string) list"
  delivered :: "(string \<times> event) list"

definition new_poller :: poller where
  "new_poller =
     \<lparr>isConnected = False, piAddress = ''192.168.4.1'', piPort = ''80'', pollInterval = 2000,
      currentRetries = 0, pollTimer = None, lastReading = None,
      next_handle = 1, pending = [], next_request = 0, in_flight = [], delivered = []\<rparr>"

definition url :: "poller \<Rightarrow> string" where
  "url p = ''http://'' @ piAddress p @ '':'' @ piPort p"

text \<open>\<^verbatim>\<open>poll()\<close> up to its \<^verbatim>\<open>await\<close>: \<^verbatim>\<open>fetchReadings\<close> sends the request to \<^verbatim>\<open>this.url\<close>.\<close>

definition poll_begin :: "poller \<Rightarrow> poller" where
  "poll_begin p =
     p\<lparr>in_flight := in_flight p @ [(next_request p, url p)],
       next_request := Suc (next_request p)\<rparr>"

definition start :: "poller \<Rightarrow> poller" where
  "start p = poll_begin p"

text \<open>
  \<^verbatim>\<open>stop()\<close>: \<^verbatim>\<open>clearTimeout\<close> disarms the timer of that handle if it is still armed, and does
  nothing otherwise. Nothing in \<^verbatim>\<open>stop()\<close> refers to a poll that is suspended.
\<close>

definition stop :: "poller \<Rightarrow> poller" where
  "stop p =
     (case pollTimer p of
        None \<Rightarrow> p
      | Some h \<Rightarrow> p\<lparr>pending := removeAll h (pending p), pollTimer := None\<rparr>)"

definition configure :: "string \<Rightarrow> string \<Rightarrow> int \<Rightarrow> poller \<Rightarrow> poller" where
  "configure address port interval p =
     start (stop (p\<lparr>piAddress := address, piPort := port, pollInterval := interval\<rparr>))"

text \<open>
  How a fetch ends: with the normalized reading, or with an error (network failure, the
  abort after 5 s, a status that is not ok, a body that cannot be normalized).
\<close>

datatype outcome = Ok jsval | Failed string

text \<open>The \<^verbatim>\<open>try\<close> block of \<^verbatim>\<open>poll()\<close> after a successful fetch, and \<^verbatim>\<open>handleError\<close>.\<close>

definition on_reading :: "string \<Rightarrow> jsval \<Rightarrow> poller \<Rightarrow> poller" where
  "on_reading origin reading p =
     (let p1 = (if \<not> isConnected p
                then p\<lparr>isConnected := True, currentRetries := 0,
                       delivered := delivered p @ [(origin, Connected (piAddress p))]\<rparr>
                else p)
      in p1\<lparr>lastReading := Some reading,
             delivered := delivered p1 @ [(origin, Data reading)]\<rparr>)"

definition handleError :: "string \<Rightarrow> string \<Rightarrow> poller \<Rightarrow> poller" where
  "handleError origin message p =
     (let p1 = p\<lparr>currentRetries := Suc (currentRetries p)\<rparr>;
          p2 = (if isConnected p1
                then p1\<lparr>isConnected := False, lastReading := None,
                        delivered := delivered p1 @ [(origin, Disconnected message)]\<rparr>
                else p1)
      in p2\<lparr>delivered := delivered p2 @ [(origin, Error message (currentRetries p2))]\<rparr>)"

text \<open>
  The rest of \<^verbatim>\<open>poll()\<close>, run when the fetch of request \<open>rid\<close> completes; it ends with
  \<^verbatim>\<open>this.pollTimer = setTimeout(() => this.poll(), this.pollInterval)\<close>.
\<close>

definition poll_resume :: "nat \<Rightarrow> outcome \<Rightarrow> poller \<Rightarrow> poller" where
  "poll_resume rid result p =
     (case map_of (in_flight p) rid of
        None \<Rightarrow> p
      | Some origin \<Rightarrow>
          (let p1 = p\<lparr>in_flight := filter (\<lambda>r. fst r \<noteq> rid) (in_flight p)\<rparr>;
               p2 = (case result of
                       Ok reading \<Rightarrow> on_reading origin reading p1
                     | Failed message \<Rightarrow> handleError origin message p1)
           in p2\<lparr>pollTimer := Some (next_handle p2),
                  pending := pending p2 @ [next_handle p2],
                  next_handle := Suc (next_handle p2)\<rparr>))"

text \<open>The timer of handle \<open>h\<close> fires, if it is armed: its callback calls \<^verbatim>\<open>poll()\<close>.\<close>

definition timer_fire :: "nat \<Rightarrow> poller \<Rightarrow> poller" where
  "timer_fire h p =
     (if List.member (pending p) h then poll_begin (p\<lparr>pending := removeAll h (pending p)\<rparr>)
      else p)"

text \<open>What happens to a poller, one run at a time.\<close>

datatype action =
    Start
  | Stop
  | Configure string string int
  | Complete nat outcome
  | Fire nat

fun perform :: "poller \<Rightarrow> action \<Rightarrow> poller" where
  "perform p Start = start p"
| "perform p Stop = stop p"
| "perform p (Configure address port interval) = configure address port interval p"
| "perform p (Complete rid result) = poll_resume rid result p"
| "perform p (Fire h) = timer_fire h p"

definition run_actions :: "poller \<Rightarrow> action list \<Rightarrow> poller" where
  "run_actions p actions = foldl perform p actions"

text \<open>The actions of a poller that is left alone once started: timers fire, fetches complete.\<close>

fun undisturbed :: "action \<Rightarrow> bool" where
  "undisturbed (Complete rid result) = True"
| "undisturbed (Fire h) = True"
| "undisturbed a = False"

text \<open>The poller is in one cycle: one armed timer, or else one poll in flight.\<close>

definition one_cycle :: "poller \<Rightarrow> bool" where
  "one_cycle p =
     ((pending p = [] \<and> (\<exists>r u. in_flight p = [(r, u)])) \<or>
      ((\<exists>h. pending p = [h]) \<and> in_flight p = []))"

section \<open>Time-series store (\<^verbatim>\<open>StorageManager\<close>, on IndexedDB)\<close>

text \<open>
  Both object stores are created with \<^verbatim>\<open>keyPath: 'id', autoIncrement: true\<close>: \<^verbatim>\<open>store.add\<close>
  gives the record the key generator's current number as its \<^verbatim>\<open>id\<close> and advances the
  generator. The records saved carry no \<^verbatim>\<open>id\<close> of their own (no Reading and no Alert made
  by this program has one). An object store is the list of its records; a cursor visits them
  in the order of its keys.

  A stored reading is \<^verbatim>\<open>{...reading, timestamp: reading.timestamp || Date.now()}\<close> with its
  \<^verbatim>\<open>id\<close>: the timestamp, and the rest of the reading as \<open>r_body\<close>.
\<close>

record 'r reading_record =
  r_id :: nat
  r_timestamp :: int
  r_body :: 'r

datatype severity = WARNING | CRITICAL

text \<open>A template literal is kept as its pieces: the literal text and the interpolated values.\<close>

datatype frag = Lit string | Interp jsval

text \<open>The object \<^verbatim>\<open>createAlert\<close> makes.\<close>

record alert =
  severity :: severity
  title :: string
  description :: "frag list"
  key :: string
  timestamp :: int

text \<open>A stored alert: \<^verbatim>\<open>{...alert, timestamp: alert.timestamp || Date.now(), acknowledged: false}\<close> with its \<^verbatim>\<open>id\<close>.\<close>

record alert_record = alert +
  a_id :: nat
  acknowledged :: bool

text \<open>
  The database: the two object stores with their key generators. \<open>rejecting\<close> says that the
  backend fails the requests made to it (\<^verbatim>\<open>request.onerror\<close>), so that the promise of the
  calling method is rejected.
\<close>

record 'r database =
  readings :: "'r reading_record list"
  readings_key :: nat
  alerts :: "alert_record list"
  alerts_key :: nat
  rejecting :: bool

record 'r storage_manager =
  db :: "'r database option"
  maxReadings :: nat
  maxAlerts :: nat

text \<open>The constructor, and the database \<^verbatim>\<open>init\<close> opens the first time.\<close>

definition new_storage_manager :: "'r storage_manager" where
  "new_storage_manager = \<lparr>db = None, maxReadings = 10000, maxAlerts = 500\<rparr>"

definition empty_database :: "'r database" where
  "empty_database =
     \<lparr>readings = [], readings_key = 1, alerts = [], alerts_key = 1, rejecting = False\<rparr>"

text \<open>\<^verbatim>\<open>x.timestamp || Date.now()\<close>, for a timestamp that is a whole number or absent.\<close>

definition timestamp_or_now :: "int option \<Rightarrow> int \<Rightarrow> int" where
  "timestamp_or_now ts now = (case ts of None \<Rightarrow> now | Some t \<Rightarrow> if t \<noteq> 0 then t else now)"

text \<open>
  The cursor loops of the two cleanups:
  \<^verbatim>\<open>if (cursor && deleted < deleteCount) { cursor.delete(); deleted++; cursor.continue(); }\<close>.
  \<open>cursor\<close> lists the records in the order the cursor visits them, \<open>kf\<close> is the primary
  key; \<^verbatim>\<open>cursor.delete()\<close> removes the record under the cursor from the store.
\<close>

fun cursor_delete :: "('a \<Rightarrow> nat) \<Rightarrow> nat \<Rightarrow> nat \<Rightarrow> 'a list \<Rightarrow> 'a list \<Rightarrow> 'a list" where
  "cursor_delete kf deleted deleteCount [] store = store"
| "cursor_delete kf deleted deleteCount (c # cursor) store =
     (if deleted < deleteCount
      then cursor_delete kf (Suc deleted) deleteCount cursor (filter (\<lambda>r. kf r \<noteq> kf c) store)
      else store)"

text \<open>
  \<^verbatim>\<open>cleanupOldReadings\<close>: \<^verbatim>\<open>store.openCursor()\<close> visits the records by ascending \<^verbatim>\<open>id\<close>.
  It runs after \<^verbatim>\<open>saveReading\<close> has resolved and its own failure is observed by nobody.
\<close>

definition cleanupOldReadings :: "'r storage_manager \<Rightarrow> 'r storage_manager" where
  "cleanupOldReadings sm =
     (case db sm of
        None \<Rightarrow> sm
      | Some d \<Rightarrow>
          if rejecting d then sm
          else
            (let count = length (readings d) in
             if count > maxReadings sm then
               (let deleteCount = count - maxReadings sm;
                    cursor = sort_key r_id (readings d)
                in sm\<lparr>db := Some (d\<lparr>readings :=
                         cursor_delete r_id 0 deleteCount cursor (readings d)\<rparr>)\<rparr>)
             else sm))"

text \<open>
  \<^verbatim>\<open>saveReading(reading)\<close>, for a reading with timestamp \<open>ts\<close> (if any) and remaining content
  \<open>body\<close>. It resolves with the new key. With no database \<^verbatim>\<open>this.db.transaction\<close> throws.
\<close>

definition saveReading ::
  "'r storage_manager \<Rightarrow> int \<Rightarrow> int option \<Rightarrow> 'r \<Rightarrow> js_error + (nat \<times> 'r storage_manager)" where
  "saveReading sm now ts body =
     (case db sm of
        None \<Rightarrow> Inl TypeError
      | Some d \<Rightarrow>
          if rejecting d then Inl StorageError
          else
            (let record = \<lparr>r_id = readings_key d, r_timestamp = timestamp_or_now ts now,
                           r_body = body\<rparr>;
                 d' = d\<lparr>readings := readings d @ [record],
                        readings_key := Suc (readings_key d)\<rparr>
             in Inr (readings_key d, cleanupOldReadings (sm\<lparr>db := Some d'\<rparr>))))"

text \<open>
  \<^verbatim>\<open>getReadings(startTime, endTime)\<close>: the records of the \<^verbatim>\<open>timestamp\<close> index within
  \<^verbatim>\<open>IDBKeyRange.bound(startTime, endTime)\<close>, in the order of the index (timestamp, then
  \<^verbatim>\<open>id\<close>). A bound that is not a number (\<open>None\<close>) makes \<^verbatim>\<open>IDBKeyRange.bound\<close> throw a
  DataError, and so does a lower bound above the upper one.
\<close>

definition getReadings ::
  "'r storage_manager \<Rightarrow> int option \<Rightarrow> int \<Rightarrow> js_error + 'r reading_record list" where
  "getReadings sm startTime endTime =
     (case db sm of
        None \<Rightarrow> Inl TypeError
      | Some d \<Rightarrow>
          (case startTime of
             None \<Rightarrow> Inl DataError
           | Some lower \<Rightarrow>
               if endTime < lower then Inl DataError
               else if rejecting d then Inl StorageError
               else Inr (filter (\<lambda>r. lower \<le> r_timestamp r \<and> r_timestamp r \<le> endTime)
                          (sort_key (\<lambda>r. (r_timestamp r, r_id r)) (readings d)))))"

text \<open>
  \<^verbatim>\<open>getReadingsLastHours(hours)\<close>; \<open>hours = None\<close> stands for a value whose product with a
  number is \<^verbatim>\<open>NaN\<close>.
\<close>

definition getReadingsLastHours ::
  "'r storage_manager \<Rightarrow> int \<Rightarrow> nat option \<Rightarrow> js_error + 'r reading_record list" where
  "getReadingsLastHours sm now hours =
     (let endTime = now;
          startTime = (case hours of None \<Rightarrow> None
                       | Some h \<Rightarrow> Some (endTime - int h * 60 * 60 * 1000))
      in getReadings sm startTime endTime)"

text \<open>
  \<^verbatim>\<open>cleanupOldAlerts\<close>: here the cursor is opened on the \<^verbatim>\<open>timestamp\<close> index,
  \<^verbatim>\<open>store.index('timestamp').openCursor()\<close>, which visits the records by ascending timestamp
  and, among equal timestamps, by ascending \<^verbatim>\<open>id\<close>.
\<close>

definition cleanupOldAlerts :: "'r storage_manager \<Rightarrow> 'r storage_manager" where
  "cleanupOldAlerts sm =
     (case db sm of
        None \<Rightarrow> sm
      | Some d \<Rightarrow>
          if rejecting d then sm
          else
            (let count = length (alerts d) in
             if count > maxAlerts sm then
               (let cursor = sort_key (\<lambda>r. (timestamp r, a_id r)) (alerts d);
                    toDelete = count - maxAlerts sm
                in sm\<lparr>db := Some (d\<lparr>alerts :=
                         cursor_delete a_id 0 toDelete cursor (alerts d)\<rparr>)\<rparr>)
             else sm))"

text \<open>
  \<^verbatim>\<open>saveAlert(alert)\<close>. The record it adds is
  \<^verbatim>\<open>{...alert, timestamp: alert.timestamp || Date.now(), acknowledged: false}\<close> under the
  next key.
\<close>

definition stored_alert :: "nat \<Rightarrow> int \<Rightarrow> alert \<Rightarrow> alert_record" where
  "stored_alert k now alert =
     \<lparr>severity = severity alert, title = title alert,
      description = description alert, key = key alert,
      timestamp = timestamp_or_now (Some (timestamp alert)) now,
      a_id = k, acknowledged = False\<rparr>"

definition saveAlert ::
  "'r storage_manager \<Rightarrow> int \<Rightarrow> alert \<Rightarrow> js_error + (nat \<times> 'r storage_manager)" where
  "saveAlert sm now alert =
     (case db sm of
        None \<Rightarrow> Inl TypeError
      | Some d \<Rightarrow>
          if rejecting d then Inl StorageError
          else
            (let record = stored_alert (alerts_key d) now alert;
                 d' = d\<lparr>alerts := alerts d @ [record], alerts_key := Suc (alerts_key d)\<rparr>
             in Inr (alerts_key d, cleanupOldAlerts (sm\<lparr>db := Some d'\<rparr>))))"

text \<open>Saving a sequence of readings, each at its own time; the first failure ends it.\<close>

fun saveReadings ::
  "'r storage_manager \<Rightarrow> (int \<times> int option \<times> 'r) list \<Rightarrow> js_error + 'r storage_manager" where
  "saveReadings sm [] = Inr sm"
| "saveReadings sm ((now, ts, body) # rest) =
     (case saveReading sm now ts body of
        Inl e \<Rightarrow> Inl e
      | Inr (k, sm') \<Rightarrow> saveReadings sm' rest)"

text \<open>The records \<^verbatim>\<open>saveReading\<close> makes of a sequence of readings, from key \<open>k\<close> on.\<close>

fun records_from :: "nat \<Rightarrow> (int \<times> int option \<times> 'r) list \<Rightarrow> 'r reading_record list" where
  "records_from k [] = []"
| "records_from k ((now, ts, body) # rest) =
     \<lparr>r_id = k, r_timestamp = timestamp_or_now ts now, r_body = body\<rparr> # records_from (Suc k) rest"

text \<open>
  The state of an object store the key generator maintains: the keys of the records
  increase along the list and lie below the generator's current number.
\<close>

definition keys_ok :: "nat list \<Rightarrow> nat \<Rightarrow> bool" where
  "keys_ok ks next_key = (sorted_wrt (<) ks \<and> list_all (\<lambda>k. k < next_key) ks)"

section \<open>Alert engine (\<^verbatim>\<open>AlertsManager\<close>)\<close>

subsection \<open>Thresholds and comparisons\<close>

text \<open>
  The threshold of a sensor is \<^verbatim>\<open>{min?, max?}\<close>; a bound that is not set is \<^verbatim>\<open>undefined\<close>
  (\<open>None\<close>).
\<close>

record limits =
  min_t :: "real option"
  max_t :: "real option"

record thresholds =
  th_respiration :: limits
  th_co2 :: limits
  th_bodyTemp :: limits
  th_voc :: limits

definition default_thresholds :: thresholds where
  "default_thresholds =
     \<lparr>th_respiration = \<lparr>min_t = Some 20, max_t = Some 60\<rparr>,
      th_co2 = \<lparr>min_t = None, max_t = Some 1000\<rparr>,
      th_bodyTemp = \<lparr>min_t = Some 36, max_t = Some 38\<rparr>,
      th_voc = \<lparr>min_t = None, max_t = Some 1\<rparr>\<rparr>"

text \<open>
  \<^verbatim>\<open>v < m\<close> and \<^verbatim>\<open>v > m\<close> first convert \<open>v\<close> to a primitive (ToPrimitive). That throws a
  TypeError on an object that has an own property \<^verbatim>\<open>toString\<close>: no value of a JSON document
  is callable, so the own property hides \<^verbatim>\<open>Object.prototype.toString\<close> and no method is left
  that gives a primitive. An array is converted by \<^verbatim>\<open>join\<close>, which converts its elements
  (but \<^verbatim>\<open>null\<close> and \<^verbatim>\<open>undefined\<close>) to strings in the same way.
\<close>

fun convertible :: "jsval \<Rightarrow> bool" where
  "convertible (Obj kvs) = (map_of kvs ''toString'' = None)"
| "convertible (Arr xs) = list_all convertible xs"
| "convertible v = True"

text \<open>
  ToNumber. The number a string stands for, and the number the joined elements of an array
  stand for, are computed by the JavaScript engine: \<open>rt\<close> is that function. An object that
  converts at all converts to the string \<^verbatim>\<open>"[object Object]"\<close>, which is \<^verbatim>\<open>NaN\<close>.
\<close>

type_synonym runtime = "jsval \<Rightarrow> jsnum"

fun to_number :: "runtime \<Rightarrow> jsval \<Rightarrow> jsnum" where
  "to_number rt Undefined = NaN"
| "to_number rt Null = Fin 0"
| "to_number rt (Bool b) = Fin (if b then 1 else 0)"
| "to_number rt (Num n) = n"
| "to_number rt (Str s) = rt (Str s)"
| "to_number rt (Arr xs) = rt (Arr xs)"
| "to_number rt (Obj kvs) = NaN"

text \<open>
  \<^verbatim>\<open>v < m\<close> and \<^verbatim>\<open>v > m\<close> for a threshold bound \<open>m\<close>: a comparison with \<^verbatim>\<open>undefined\<close> or
  with \<^verbatim>\<open>NaN\<close> is false.
\<close>

definition js_lt :: "runtime \<Rightarrow> jsval \<Rightarrow> real option \<Rightarrow> js_error + bool" where
  "js_lt rt v m =
     (if \<not> convertible v then Inl TypeError
      else Inr (case m of
                  None \<Rightarrow> False
                | Some b \<Rightarrow> (case to_number rt v of
                               Fin x \<Rightarrow> x < b | NegInf \<Rightarrow> True | PosInf \<Rightarrow> False | NaN \<Rightarrow> False)))"

definition js_gt :: "runtime \<Rightarrow> jsval \<Rightarrow> real option \<Rightarrow> js_error + bool" where
  "js_gt rt v m =
     (if \<not> convertible v then Inl TypeError
      else Inr (case m of
                  None \<Rightarrow> False
                | Some b \<Rightarrow> (case to_number rt v of
                               Fin x \<Rightarrow> b < x | PosInf \<Rightarrow> True | NegInf \<Rightarrow> False | NaN \<Rightarrow> False)))"

text \<open>Sequencing of steps that may throw.\<close>

definition bind_err :: "'e + 'a \<Rightarrow> ('a \<Rightarrow> 'e + 'b) \<Rightarrow> 'e + 'b" where
  "bind_err m f = (case m of Inl e \<Rightarrow> Inl e | Inr x \<Rightarrow> f x)"

subsection \<open>The conditions of \<^verbatim>\<open>checkReading\<close>\<close>

definition createAlert :: "severity \<Rightarrow> string \<Rightarrow> frag list \<Rightarrow> string \<Rightarrow> int \<Rightarrow> alert" where
  "createAlert sev ttl descr k now =
     \<lparr>severity = sev, title = ttl, description = descr, key = k, timestamp = now\<rparr>"

text \<open>The value of an interpolated threshold bound.\<close>

definition bound_val :: "real option \<Rightarrow> jsval" where
  "bound_val m = (case m of None \<Rightarrow> Undefined | Some b \<Rightarrow> Num (Fin b))"

text \<open>
  Each block of \<^verbatim>\<open>checkReading\<close> gives the alerts it pushes. The guard of a measured value is
  \<^verbatim>\<open>reading.x?.value !== null\<close>; the read that follows it, \<^verbatim>\<open>reading.x.value\<close>, has no
  \<^verbatim>\<open>?.\<close>. Strings of the source outside ASCII are given by their UTF-8 bytes.
\<close>

definition check_respiration :: "thresholds \<Rightarrow> runtime \<Rightarrow> jsval \<Rightarrow> int \<Rightarrow> js_error + alert list" where
  "check_respiration th rt reading now =
     bind_err (member reading ''respiration'') (\<lambda>respiration.
       if opt_member respiration ''value'' \<noteq> Null then
         bind_err (member respiration ''value'') (\<lambda>resp.
         bind_err (js_lt rt resp (min_t (th_respiration th))) (\<lambda>low.
           if low then
             Inr [createAlert CRITICAL ''Apnea Detected (mmWave)''
                    [Lit ''No respiration detected for 15 seconds. Current: '', Interp resp,
                     Lit '' rpm'']
                    ''respiration_low'' now]
           else
             bind_err (js_gt rt resp (max_t (th_respiration th))) (\<lambda>high.
               if high then
                 Inr [createAlert WARNING ''High Respiration Rate''
                        [Lit ''Respiration rate elevated at '', Interp resp, Lit '' rpm'']
                        ''respiration_high'' now]
               else Inr [])))
       else Inr [])"

definition check_co2 :: "thresholds \<Rightarrow> runtime \<Rightarrow> jsval \<Rightarrow> int \<Rightarrow> js_error + alert list" where
  "check_co2 th rt reading now =
     bind_err (member reading ''environment'') (\<lambda>environment.
       if opt_member (opt_member environment ''co2'') ''value'' \<noteq> Null then
         bind_err (member environment ''co2'') (\<lambda>c.
         bind_err (member c ''value'') (\<lambda>co2.
         bind_err (js_gt rt co2 (max_t (th_co2 th))) (\<lambda>high.
           if high then
             Inr [createAlert WARNING
                    (''High CO'' @ [CHR 0xE2, CHR 0x82, CHR 0x82] @ '' (MH-Z19C)'')
                    [Lit ''Carbon dioxide levels exceeded '',
                     Interp (bound_val (max_t (th_co2 th))),
                     Lit '' ppm. Current: '', Interp co2, Lit '' ppm'']
                    ''co2_high'' now]
           else Inr [])))
       else Inr [])"

definition check_bodyTemp :: "thresholds \<Rightarrow> runtime \<Rightarrow> jsval \<Rightarrow> int \<Rightarrow> js_error + alert list" where
  "check_bodyTemp th rt reading now =
     bind_err (member reading ''bodyTemp'') (\<lambda>bodyTemp.
       if opt_member bodyTemp ''value'' \<noteq> Null then
         bind_err (member bodyTemp ''value'') (\<lambda>temp.
         bind_err (js_lt rt temp (min_t (th_bodyTemp th))) (\<lambda>low.
           if low then
             Inr [createAlert WARNING ''Low Body Temperature''
                    [Lit ''Body temperature below normal at '', Interp temp,
                     Lit ([CHR 0xC2, CHR 0xB0] @ ''C'')]
                    ''temp_low'' now]
           else
             bind_err (js_gt rt temp (max_t (th_bodyTemp th))) (\<lambda>high.
               if high then
                 Inr [createAlert CRITICAL ''High Body Temperature''
                        [Lit ''Fever detected at '', Interp temp,
                         Lit ([CHR 0xC2, CHR 0xB0] @ ''C'')]
                        ''temp_high'' now]
               else Inr [])))
       else Inr [])"

definition check_posture :: "jsval \<Rightarrow> int \<Rightarrow> js_error + alert list" where
  "check_posture reading now =
     bind_err (member reading ''posture'') (\<lambda>posture.
       if opt_member posture ''state'' = Str ''prone'' then
         Inr [createAlert WARNING ''Prone Position (Camera)''
                [Lit ''Infant rolled onto stomach detected by vision system.'']
                ''posture_prone'' now]
       else Inr [])"

definition check_voc :: "thresholds \<Rightarrow> runtime \<Rightarrow> jsval \<Rightarrow> int \<Rightarrow> js_error + alert list" where
  "check_voc th rt reading now =
     bind_err (member reading ''environment'') (\<lambda>environment.
       if opt_member (opt_member environment ''voc'') ''value'' \<noteq> Null then
         bind_err (member environment ''voc'') (\<lambda>c.
         bind_err (member c ''value'') (\<lambda>voc.
         bind_err (js_gt rt voc (max_t (th_voc th))) (\<lambda>high.
           if high then
             Inr [createAlert WARNING ''High VOC Levels''
                    [Lit ''Volatile organic compounds elevated at '', Interp voc]
                    ''voc_high'' now]
           else Inr [])))
       else Inr [])"

definition check_gas :: "jsval \<Rightarrow> int \<Rightarrow> js_error + alert list" where
  "check_gas reading now =
     bind_err (member reading ''environment'') (\<lambda>environment.
       if opt_member (opt_member environment ''gas'') ''safe'' = Bool False then
         Inr [createAlert CRITICAL ''Gas Safety Alert''
                [Lit ''Unsafe gas levels detected by MQ-135 sensor.'']
                ''gas_unsafe'' now]
       else Inr [])"

definition check_audio :: "jsval \<Rightarrow> int \<Rightarrow> js_error + alert list" where
  "check_audio reading now =
     bind_err (member reading ''audio'') (\<lambda>audio.
       if opt_member audio ''state'' = Str ''choking'' then
         Inr [createAlert CRITICAL ''Choking Sound (MEMS)''
                [Lit ''Audio pattern matching choking detected.'']
                ''audio_choking'' now]
       else Inr [])"

text \<open>The array \<^verbatim>\<open>alerts\<close> as it stands before the \<^verbatim>\<open>forEach\<close>.\<close>

definition evaluate :: "thresholds \<Rightarrow> runtime \<Rightarrow> jsval \<Rightarrow> int \<Rightarrow> js_error + alert list" where
  "evaluate th rt reading now =
     bind_err (check_respiration th rt reading now) (\<lambda>a1.
     bind_err (check_co2 th rt reading now) (\<lambda>a2.
     bind_err (check_bodyTemp th rt reading now) (\<lambda>a3.
     bind_err (check_posture reading now) (\<lambda>a4.
     bind_err (check_voc th rt reading now) (\<lambda>a5.
     bind_err (check_gas reading now) (\<lambda>a6.
     bind_err (check_audio reading now) (\<lambda>a7.
       Inr (a1 @ a2 @ a3 @ a4 @ a5 @ a6 @ a7))))))))"

subsection \<open>Cooldown and triggering\<close>

text \<open>
  What a triggered alert does to the world outside the manager: the record added to the
  alerts store, and the \<^verbatim>\<open>'alert'\<close> event handed to the listeners.
\<close>

datatype effect = Persisted alert | Emitted alert

text \<open>
  The manager (\<open>thresholds\<close>, \<open>alertCooldown\<close>, \<open>lastAlerts\<close>), the global
  \<^verbatim>\<open>window.storageManager\<close> it writes to, and the effects so far.
\<close>

record 'r alerts_state =
  thresholds :: thresholds
  alertCooldown :: int
  lastAlerts :: "string \<rightharpoonup> int"
  storageManager :: "'r storage_manager option"
  effects :: "effect list"

definition new_alerts_state :: "'r storage_manager option \<Rightarrow> 'r alerts_state" where
  "new_alerts_state sm =
     \<lparr>thresholds = default_thresholds, alertCooldown = 30000, lastAlerts = Map.empty,
      storageManager = sm, effects = []\<rparr>"

text \<open>\<^verbatim>\<open>shouldTriggerAlert(key)\<close>; \<^verbatim>\<open>this.lastAlerts[key] || 0\<close> is 0 for a key not yet set.\<close>

definition shouldTriggerAlert :: "'r alerts_state \<Rightarrow> string \<Rightarrow> int \<Rightarrow> bool" where
  "shouldTriggerAlert st k now =
     (let lastTime = (case lastAlerts st k of None \<Rightarrow> 0 | Some t \<Rightarrow> t)
      in now - lastTime > alertCooldown st)"

text \<open>
  \<^verbatim>\<open>triggerAlert(alert)\<close>. It is \<^verbatim>\<open>async\<close> and \<^verbatim>\<open>checkReading\<close> does not await it: when
  \<^verbatim>\<open>await saveAlert(alert)\<close> is rejected, the rest of the body does not run and nobody
  observes the rejection. Sound, vibration and notification belong to the presentation layer
  and are taken to return.
\<close>

definition triggerAlert :: "'r alerts_state \<Rightarrow> alert \<Rightarrow> int \<Rightarrow> 'r alerts_state" where
  "triggerAlert st alert now =
     (let st1 = st\<lparr>lastAlerts := (lastAlerts st)(key alert \<mapsto> timestamp alert)\<rparr> in
      case storageManager st1 of
        None \<Rightarrow> st1\<lparr>effects := effects st1 @ [Emitted alert]\<rparr>
      | Some sm \<Rightarrow>
          (case db sm of
             None \<Rightarrow> st1\<lparr>effects := effects st1 @ [Emitted alert]\<rparr>
           | Some d \<Rightarrow>
               (case saveAlert sm now alert of
                  Inl e \<Rightarrow> st1
                | Inr (k, sm') \<Rightarrow>
                    st1\<lparr>storageManager := Some sm',
                        effects := effects st1 @ [Persisted alert, Emitted alert]\<rparr>)))"

text \<open>One round of the \<^verbatim>\<open>forEach\<close>.\<close>

definition process_alert :: "int \<Rightarrow> 'r alerts_state \<Rightarrow> alert \<Rightarrow> 'r alerts_state" where
  "process_alert now st alert =
     (if shouldTriggerAlert st (key alert) now then triggerAlert st alert now else st)"

text \<open>\<^verbatim>\<open>checkReading(reading)\<close>: the alerts it returns and the state it leaves.\<close>

definition checkReading ::
  "'r alerts_state \<Rightarrow> runtime \<Rightarrow> jsval \<Rightarrow> int \<Rightarrow> js_error + (alert list \<times> 'r alerts_state)" where
  "checkReading st rt reading now =
     bind_err (evaluate (thresholds st) rt reading now) (\<lambda>alerts.
       Inr (alerts, foldl (process_alert now) st alerts))"








text \<open>
  The values a payload supplies for the measurements \<^verbatim>\<open>checkReading\<close> compares with a
  threshold.
\<close>

definition payload_measurements :: "jsval \<Rightarrow> jsval list" where
  "payload_measurements data =
     [opt_member (js_get data ''respiration'') ''value'',
      opt_member (js_get data ''body_temp'') ''value'',
      env_field data ''co2'' ''value'',
      env_field data ''voc'' ''value'']"

text \<open>
  What a block of \<^verbatim>\<open>checkReading\<close> pushes: nothing, or one alert whose key is among \<open>K\<close> and
  whose timestamp is \<open>now\<close>.
\<close>

definition one_of :: "string set \<Rightarrow> int \<Rightarrow> alert list \<Rightarrow> bool" where
  "one_of K now as = (as = [] \<or> (\<exists>a. as = [a] \<and> key a \<in> K \<and> timestamp a = now))"

text \<open>
  The sub-objects \<^verbatim>\<open>checkReading\<close> reads without \<^verbatim>\<open>?.\<close> once a guard has passed:
  \<^verbatim>\<open>reading.respiration.value\<close>, \<^verbatim>\<open>reading.environment.co2.value\<close>,
  \<^verbatim>\<open>reading.bodyTemp.value\<close> and \<^verbatim>\<open>reading.environment.voc.value\<close>.
\<close>

definition sub_objects_present :: "jsval \<Rightarrow> bool" where
  "sub_objects_present r =
     (\<not> nullish r \<and>
      \<not> nullish (js_get r ''respiration'') \<and>
      \<not> nullish (js_get r ''bodyTemp'') \<and>
      \<not> nullish (js_get r ''environment'') \<and>
      \<not> nullish (js_get (js_get r ''environment'') ''co2'') \<and>
      \<not> nullish (js_get (js_get r ''environment'') ''voc''))"

subsection \<open>States and readings of the examples\<close>

text \<open>
  A freshly constructed manager (default thresholds, cooldown of 30 s) over an open, empty
  database; the same over a database that rejects the writes.
\<close>

definition sample_state :: "unit alerts_state" where
  "sample_state =
     new_alerts_state
       (Some \<lparr>db = Some empty_database, maxReadings = 10000, maxAlerts = 500\<rparr>)"

definition rejecting_state :: "unit alerts_state" where
  "rejecting_state =
     new_alerts_state
       (Some \<lparr>db = Some (empty_database\<lparr>rejecting := True\<rparr>),
              maxReadings = 10000, maxAlerts = 500\<rparr>)"


text \<open>The Reading \<^verbatim>\<open>normalizeReading\<close> makes of \<^verbatim>\<open>{respiration: {value: 15}}\<close> at time 1000.\<close>

definition apnea_reading :: jsval where
  "apnea_reading =
     Obj [(''timestamp'', Num (Fin 1000)),
          (''respiration'',
           Obj [(''value'', Num (Fin 15)), (''unit'', Str ''rpm''),
                (''confidence'', Num (Fin 1))]),
          (''audio'', Obj [(''state'', Str ''unknown''), (''level'', Num (Fin 0))]),
          (''bodyTemp'', Obj [(''value'', Null), (''unit'', Str ''C'')]),
          (''posture'', Obj [(''state'', Str ''unknown''), (''confidence'', Num (Fin 1))]),
          (''radar'', Obj [(''active'', Bool False), (''movement'', Num (Fin 0))]),
          (''environment'',
           Obj [(''temp'', Obj [(''value'', Null), (''unit'', Str ''C'')]),
                (''co2'', Obj [(''value'', Null), (''unit'', Str ''ppm'')]),
                (''voc'', Obj [(''value'', Null)]),
                (''gas'', Obj [(''safe'', Bool True)])])]"

section \<open>Numbers (IEEE 754 double precision)\<close>

text \<open>
  A JavaScript number is a double. \<open>Fin x\<close> gives the value of a finite one; the two zeros
  are one value here, which nothing below tells apart (no division by a computed number).
  The result of an arithmetic operation is the exact result rounded to the nearest double,
  ties to the even significand, and to an infinity from \<open>2 ^ 1024 - 2 ^ 970\<close> on.
\<close>

text \<open>The nearest integer, ties to the even one.\<close>

definition rne :: "real \<Rightarrow> int" where
  "rne q =
     (let f = \<lfloor>q\<rfloor>; r = q - of_int f
      in if r < 1 / 2 then f else if 1 / 2 < r then f + 1 else if even f then f else f + 1)"

text \<open>
  \<open>expo a\<close> is the binary exponent of a positive \<open>a\<close>, the \<open>e\<close> with
  \<open>2 ^ e \<le> a < 2 ^ (e + 1)\<close>; \<open>pow2 e\<close> is \<open>2 ^ e\<close> for an integer \<open>e\<close>.
\<close>

definition expo :: "real \<Rightarrow> int" where
  "expo a = (if 1 \<le> a then bitlen \<lfloor>a\<rfloor> - 1 else - bitlen (\<lceil>1 / a\<rceil> - 1))"

definition pow2 :: "int \<Rightarrow> real" where
  "pow2 e = (if 0 \<le> e then 2 ^ nat e else 1 / 2 ^ nat (- e))"

text \<open>
  Rounding to double: the significand has 53 bits, the exponent of the last bit is at least
  \<open>-1074\<close> (subnormal numbers), and a result of \<open>2 ^ 1024\<close> or more is an infinity.
\<close>

definition fl :: "real \<Rightarrow> jsnum" where
  "fl x =
     (if x = 0 then Fin 0
      else
        (let e = max (expo \<bar>x\<bar>) (- 1022) - 52;
             m = rne (\<bar>x\<bar> / pow2 e)
         in if 2 ^ 1024 \<le> of_int m * pow2 e then (if x < 0 then NegInf else PosInf)
            else Fin (sgn x * of_int m * pow2 e)))"

text \<open>\<^verbatim>\<open>a + b\<close> on numbers.\<close>

fun num_add :: "jsnum \<Rightarrow> jsnum \<Rightarrow> jsnum" where
  "num_add (Fin x) (Fin y) = fl (x + y)"
| "num_add NaN b = NaN"
| "num_add a NaN = NaN"
| "num_add PosInf NegInf = NaN"
| "num_add NegInf PosInf = NaN"
| "num_add PosInf b = PosInf"
| "num_add NegInf b = NegInf"
| "num_add a PosInf = PosInf"
| "num_add a NegInf = NegInf"

text \<open>
  \<^verbatim>\<open>a * c\<close> and \<^verbatim>\<open>a / c\<close> for a finite \<open>c > 0\<close>: the program multiplies and divides by 100,
  and divides by the length of an array that is not empty.
\<close>

fun num_times :: "jsnum \<Rightarrow> real \<Rightarrow> jsnum" where
  "num_times (Fin x) c = fl (x * c)"
| "num_times a c = a"

fun num_over :: "jsnum \<Rightarrow> real \<Rightarrow> jsnum" where
  "num_over (Fin x) c = fl (x / c)"
| "num_over a c = a"

text \<open>
  \<^verbatim>\<open>Math.round\<close>: the nearest integer, a half rounded up. The result is a double: a double of
  magnitude \<open>2 ^ 52\<close> or more is an integer already.
\<close>

fun math_round :: "jsnum \<Rightarrow> jsnum" where
  "math_round (Fin y) = Fin (of_int \<lfloor>y + 1 / 2\<rfloor>)"
| "math_round a = a"

text \<open>
  \<^verbatim>\<open>Math.min\<close> and \<^verbatim>\<open>Math.max\<close> of numbers: \<^verbatim>\<open>NaN\<close> if one of them is \<^verbatim>\<open>NaN\<close>, and
  \<^verbatim>\<open>Infinity\<close> and \<^verbatim>\<open>-Infinity\<close> of no number at all.
\<close>

fun num_min :: "jsnum \<Rightarrow> jsnum \<Rightarrow> jsnum" where
  "num_min NaN b = NaN"
| "num_min a NaN = NaN"
| "num_min NegInf b = NegInf"
| "num_min a NegInf = NegInf"
| "num_min PosInf b = b"
| "num_min a PosInf = a"
| "num_min (Fin x) (Fin y) = Fin (min x y)"

fun num_max :: "jsnum \<Rightarrow> jsnum \<Rightarrow> jsnum" where
  "num_max NaN b = NaN"
| "num_max a NaN = NaN"
| "num_max PosInf b = PosInf"
| "num_max a PosInf = PosInf"
| "num_max NegInf b = b"
| "num_max a NegInf = a"
| "num_max (Fin x) (Fin y) = Fin (max x y)"

definition math_min :: "jsnum list \<Rightarrow> jsnum" where
  "math_min ns = foldl num_min PosInf ns"

definition math_max :: "jsnum list \<Rightarrow> jsnum" where
  "math_max ns = foldl num_max NegInf ns"

text \<open>
  \<^verbatim>\<open>a + b\<close> on values. Both operands are converted to primitives, which throws as for a
  comparison. An array or an object converts to a string, and if one of the primitives is a
  string the result is the concatenation of the two as strings. The string of a number
  and of an array is computed by the JavaScript engine: \<open>pr\<close> is that function.
\<close>

type_synonym printer = "jsval \<Rightarrow> string"

fun to_string :: "printer \<Rightarrow> jsval \<Rightarrow> string" where
  "to_string pr Undefined = ''undefined''"
| "to_string pr Null = ''null''"
| "to_string pr (Bool b) = (if b then ''true'' else ''false'')"
| "to_string pr (Num n) = pr (Num n)"
| "to_string pr (Str s) = s"
| "to_string pr (Arr xs) = pr (Arr xs)"
| "to_string pr (Obj kvs) = ''[object Object]''"

fun stringy :: "jsval \<Rightarrow> bool" where
  "stringy (Str s) = True"
| "stringy (Arr xs) = True"
| "stringy (Obj kvs) = True"
| "stringy v = False"

definition js_plus :: "runtime \<Rightarrow> printer \<Rightarrow> jsval \<Rightarrow> jsval \<Rightarrow> js_error + jsval" where
  "js_plus rt pr a b =
     (if \<not> convertible a \<or> \<not> convertible b then Inl TypeError
      else if stringy a \<or> stringy b then Inr (Str (to_string pr a @ to_string pr b))
      else Inr (Num (num_add (to_number rt a) (to_number rt b))))"

text \<open>ToNumber of a value, which converts it to a primitive first.\<close>

definition js_number :: "runtime \<Rightarrow> jsval \<Rightarrow> js_error + jsnum" where
  "js_number rt v = (if convertible v then Inr (to_number rt v) else Inl TypeError)"

section \<open>Trend aggregator (\<^verbatim>\<open>TrendsManager\<close>): chart data and downsampling\<close>

text \<open>
  The \<^verbatim>\<open>stats\<close> object: \<^verbatim>\<open>min\<close>, \<^verbatim>\<open>max\<close> and \<^verbatim>\<open>avg\<close> are a number or \<^verbatim>\<open>null\<close> (\<open>None\<close>).
\<close>

record stats =
  min_v :: "jsnum option"
  max_v :: "jsnum option"
  avg :: "jsnum option"
  count :: nat

text \<open>
  The object \<^verbatim>\<open>getChartData\<close> returns. \<^verbatim>\<open>getEmptyData\<close> sets \<^verbatim>\<open>isEmpty\<close> and leaves
  \<^verbatim>\<open>timeRange\<close> and \<^verbatim>\<open>sensor\<close> out; a computed result sets those two and leaves \<^verbatim>\<open>isEmpty\<close>
  out. An absent property is \<open>None\<close>. The field \<open>vals\<close> is the property \<^verbatim>\<open>values\<close>.
\<close>

record ('p, 'v, 't) chart =
  points :: "'p list"
  vals :: "'v list"
  timestamps :: "'t list"
  stats :: stats
  timeRange :: "string option"
  sensor :: "string option"
  isEmpty :: "bool option"

text \<open>
  \<^verbatim>\<open>downsample\<close> reads the three arrays at the same index, which is in range for
  \<^verbatim>\<open>data.points\<close> only; a read past the end of an array gives \<^verbatim>\<open>undefined\<close>. So the arrays
  it works on hold \<open>'a option\<close>, with \<open>None\<close> for \<^verbatim>\<open>undefined\<close>.
\<close>

definition js_at :: "'a option list \<Rightarrow> nat \<Rightarrow> 'a option" where
  "js_at xs i = (if i < length xs then xs ! i else None)"

text \<open>
  The loop \<^verbatim>\<open>for (let i = 0; i < data.points.length; i += step) sampled.push(xs[i])\<close>, for one
  of the three arrays. With \<open>step = 0\<close> it would never end, so it is a partial function.
\<close>

partial_function (option) sample_loop ::
  "nat \<Rightarrow> nat \<Rightarrow> nat \<Rightarrow> 'a option list \<Rightarrow> 'a option list \<Rightarrow> 'a option list option" where
  "sample_loop step n i xs sampled =
     (if i < n then sample_loop step n (i + step) xs (sampled @ [js_at xs i]) else Some sampled)"

declare sample_loop.simps [code]

text \<open>\<^verbatim>\<open>Math.ceil(n / m)\<close> for a length \<open>n\<close> and a positive whole number \<open>m\<close>.\<close>

definition ceil_div :: "nat \<Rightarrow> nat \<Rightarrow> nat" where
  "ceil_div n m = (n + m - 1) div m"

text \<open>
  \<^verbatim>\<open>downsample(data, maxPoints)\<close>, for a whole number \<open>maxPoints \<ge> 0\<close>. With \<open>maxPoints = 0\<close>
  the step is \<^verbatim>\<open>Math.ceil(n / 0) = Infinity\<close>: the loop body runs once, for \<open>i = 0\<close>.
  The result is \<open>None\<close> when a loop does not end.
\<close>

definition downsample ::
  "('p option, 'v option, 't option) chart \<Rightarrow> nat \<Rightarrow>
   ('p option, 'v option, 't option) chart option" where
  "downsample data maxPoints =
     (let n = length (points data) in
      if n \<le> maxPoints then Some data
      else if maxPoints = 0 then
        Some (data\<lparr>points := [js_at (points data) 0], vals := [js_at (vals data) 0],
                    timestamps := [js_at (timestamps data) 0]\<rparr>)
      else
        (let step = ceil_div n maxPoints in
         do {
           sampledPoints \<leftarrow> sample_loop step n 0 (points data) [];
           sampledValues \<leftarrow> sample_loop step n 0 (vals data) [];
           sampledTimestamps \<leftarrow> sample_loop step n 0 (timestamps data) [];
           Some (data\<lparr>points := sampledPoints, vals := sampledValues,
                       timestamps := sampledTimestamps\<rparr>)
         }))"

text \<open>The indices \<open>0, s, 2s, ...\<close> below \<open>n\<close>.\<close>

definition strided :: "nat \<Rightarrow> nat \<Rightarrow> nat list" where
  "strided n s = map (\<lambda>k. k * s) [0..<ceil_div n s]"

subsection \<open>Chart data (\<^verbatim>\<open>getChartData\<close>)\<close>

text \<open>
  A stored reading is the object \<^verbatim>\<open>saveReading\<close> was given, with its \<^verbatim>\<open>timestamp\<close> and
  \<^verbatim>\<open>id\<close>: the body of a record is a value, and what the aggregator finds in it at the path of
  a sensor can be any value.
\<close>

type_synonym chart_data = "(int \<times> jsval, jsval, int) chart"

text \<open>
  The \<^verbatim>\<open>switch (sensor)\<close>, with its reads \<^verbatim>\<open>reading.respiration?.value\<close>, ...,
  \<^verbatim>\<open>reading.radar?.movement\<close>; an unknown name leaves \<^verbatim>\<open>value\<close> at \<^verbatim>\<open>null\<close>.
\<close>

definition sensor_value :: "string \<Rightarrow> jsval \<Rightarrow> jsval" where
  "sensor_value sensor_name reading =
     (if sensor_name = ''respiration'' then opt_member (js_get reading ''respiration'') ''value''
      else if sensor_name = ''bodyTemp'' then opt_member (js_get reading ''bodyTemp'') ''value''
      else if sensor_name = ''co2'' then
        opt_member (opt_member (js_get reading ''environment'') ''co2'') ''value''
      else if sensor_name = ''voc'' then
        opt_member (opt_member (js_get reading ''environment'') ''voc'') ''value''
      else if sensor_name = ''envTemp'' then
        opt_member (opt_member (js_get reading ''environment'') ''temp'') ''value''
      else if sensor_name = ''audioLevel'' then opt_member (js_get reading ''audio'') ''level''
      else if sensor_name = ''movement'' then opt_member (js_get reading ''radar'') ''movement''
      else Null)"

text \<open>
  \<^verbatim>\<open>extractSensorData\<close>: the \<^verbatim>\<open>forEach\<close> pushes a point, a value and a timestamp for every
  reading whose value is neither \<^verbatim>\<open>null\<close> nor \<^verbatim>\<open>undefined\<close>. The result is
  \<^verbatim>\<open>{points, values, timestamps}\<close>.
\<close>

fun extractSensorData ::
  "jsval reading_record list \<Rightarrow> string \<Rightarrow> (int \<times> jsval) list \<times> jsval list \<times> int list" where
  "extractSensorData [] sensor_name = ([], [], [])"
| "extractSensorData (reading # rest) sensor_name =
     (case extractSensorData rest sensor_name of
        (ps, vs, ts) \<Rightarrow>
          (let v = sensor_value sensor_name (r_body reading)
           in if v \<noteq> Null \<and> v \<noteq> Undefined
              then ((r_timestamp reading, v) # ps, v # vs, r_timestamp reading # ts)
              else (ps, vs, ts)))"

text \<open>\<^verbatim>\<open>Math.round(x * 100) / 100\<close>.\<close>

definition round2 :: "jsnum \<Rightarrow> jsnum" where
  "round2 x = num_over (math_round (num_times x 100)) 100"

text \<open>\<^verbatim>\<open>values.reduce((a, b) => a + b, 0)\<close>, from the accumulator \<open>acc\<close> on.\<close>

fun js_sum :: "runtime \<Rightarrow> printer \<Rightarrow> jsval \<Rightarrow> jsval list \<Rightarrow> js_error + jsval" where
  "js_sum rt pr acc [] = Inr acc"
| "js_sum rt pr acc (v # vs) = bind_err (js_plus rt pr acc v) (\<lambda>acc'. js_sum rt pr acc' vs)"

text \<open>The arguments of \<^verbatim>\<open>Math.min(...values)\<close> and \<^verbatim>\<open>Math.max(...values)\<close> as numbers.\<close>

fun js_numbers :: "runtime \<Rightarrow> jsval list \<Rightarrow> js_error + jsnum list" where
  "js_numbers rt [] = Inr []"
| "js_numbers rt (v # vs) =
     bind_err (js_number rt v) (\<lambda>n. bind_err (js_numbers rt vs) (\<lambda>ns. Inr (n # ns)))"

text \<open>
  \<^verbatim>\<open>calculateStats(values)\<close>. The sum is a number or, once a string, an array or an object
  was added, a string, which the division converts to a number.
\<close>

definition calculateStats :: "runtime \<Rightarrow> printer \<Rightarrow> jsval list \<Rightarrow> js_error + stats" where
  "calculateStats rt pr values =
     (if values = [] then Inr \<lparr>min_v = None, max_v = None, avg = None, count = 0\<rparr>
      else
        bind_err (js_sum rt pr (Num (Fin 0)) values) (\<lambda>sum.
          (let average = num_over (to_number rt sum) (of_nat (length values)) in
           bind_err (js_numbers rt values) (\<lambda>ns.
             (let minimum = math_min ns;
                  maximum = math_max ns
              in Inr \<lparr>min_v = Some (round2 minimum), max_v = Some (round2 maximum),
                      avg = Some (round2 average), count = length values\<rparr>)))))"

definition getEmptyData :: chart_data where
  "getEmptyData =
     \<lparr>points = [], vals = [], timestamps = [],
      stats = \<lparr>min_v = None, max_v = None, avg = None, count = 0\<rparr>,
      timeRange = None, sensor = None, isEmpty = Some True\<rparr>"

text \<open>
  The table \<^verbatim>\<open>this.timeRanges\<close> and the lookup \<^verbatim>\<open>this.timeRanges[timeRange] || 1\<close>. The
  table is an object literal, so a name it does not hold is looked up in
  \<^verbatim>\<open>Object.prototype\<close>: for the names defined there the lookup gives a function or an object,
  which is truthy and whose product with a number is \<^verbatim>\<open>NaN\<close> (\<open>None\<close>).
\<close>

definition timeRanges :: "string \<Rightarrow> nat option" where
  "timeRanges tr =
     (if tr = ''1h'' then Some 1
      else if tr = ''24h'' then Some 24
      else if tr = ''7d'' then Some (24 * 7)
      else if tr = ''1m'' then Some (24 * 30)
      else None)"

definition object_prototype_names :: "string list" where
  "object_prototype_names =
     [''constructor'', ''__defineGetter__'', ''__defineSetter__'', ''hasOwnProperty'',
      ''__lookupGetter__'', ''__lookupSetter__'', ''isPrototypeOf'', ''propertyIsEnumerable'',
      ''toString'', ''valueOf'', ''__proto__'', ''toLocaleString'']"

definition hours_of :: "string \<Rightarrow> nat option" where
  "hours_of tr =
     (case timeRanges tr of
        Some h \<Rightarrow> Some h
      | None \<Rightarrow> if List.member object_prototype_names tr then None else Some 1)"

text \<open>
  The manager: the two tables \<^verbatim>\<open>cachedData\<close> and \<^verbatim>\<open>lastCacheTime\<close>, keyed by
  \<^verbatim>\<open>`${sensor}_${timeRange}`\<close>, and \<^verbatim>\<open>cacheExpiry\<close>.
\<close>

record trends_manager =
  cachedData :: "string \<rightharpoonup> chart_data"
  lastCacheTime :: "string \<rightharpoonup> int"
  cacheExpiry :: int

definition new_trends_manager :: trends_manager where
  "new_trends_manager =
     \<lparr>cachedData = Map.empty, lastCacheTime = Map.empty, cacheExpiry = 60000\<rparr>"

text \<open>
  The test \<^verbatim>\<open>this.cachedData[cacheKey] && now - this.lastCacheTime[cacheKey] < this.cacheExpiry\<close>:
  the cached object, if the test passes. A time that is not there makes the difference
  \<^verbatim>\<open>NaN\<close> and the test fail.
\<close>

definition cache_lookup :: "trends_manager \<Rightarrow> string \<Rightarrow> int \<Rightarrow> chart_data option" where
  "cache_lookup tm cacheKey now =
     (case cachedData tm cacheKey of
        None \<Rightarrow> None
      | Some c \<Rightarrow>
          (case lastCacheTime tm cacheKey of
             None \<Rightarrow> None
           | Some t \<Rightarrow> if now - t < cacheExpiry tm then Some c else None))"

text \<open>
  The two assignments that cache a result. Both tables are object literals: assigning a
  number to the key \<^verbatim>\<open>__proto__\<close> is ignored by the setter \<^verbatim>\<open>Object.prototype\<close> defines for
  it, so under that key no time is ever stored.
\<close>

definition cache_store :: "trends_manager \<Rightarrow> string \<Rightarrow> chart_data \<Rightarrow> int \<Rightarrow> trends_manager" where
  "cache_store tm cacheKey result now =
     tm\<lparr>cachedData := (cachedData tm)(cacheKey \<mapsto> result),
        lastCacheTime := (if cacheKey = ''__proto__'' then lastCacheTime tm
                          else (lastCacheTime tm)(cacheKey \<mapsto> now))\<rparr>"

text \<open>
  \<^verbatim>\<open>getChartData(sensor, timeRange)\<close>, with \<^verbatim>\<open>window.storageManager\<close> as \<open>sm\<close>. It gives the
  object returned and the manager as it is left, or the error its promise is rejected with.
\<close>

definition getChartData ::
  "trends_manager \<Rightarrow> runtime \<Rightarrow> printer \<Rightarrow> jsval storage_manager option \<Rightarrow> int \<Rightarrow> string \<Rightarrow>
   string \<Rightarrow> js_error + (chart_data \<times> trends_manager)" where
  "getChartData tm rt pr sm now sensor_name tr =
     (let cacheKey = sensor_name @ ''_'' @ tr in
      case cache_lookup tm cacheKey now of
        Some cached \<Rightarrow> Inr (cached, tm)
      | None \<Rightarrow>
          (let hours = hours_of tr in
           case sm of
             None \<Rightarrow> Inr (getEmptyData, tm)
           | Some storage \<Rightarrow>
               (case db storage of
                  None \<Rightarrow> Inr (getEmptyData, tm)
                | Some d \<Rightarrow>
                    bind_err (getReadingsLastHours storage now hours) (\<lambda>found.
                      if found = [] then Inr (getEmptyData, tm)
                      else
                        (case extractSensorData found sensor_name of
                           (ps, vs, ts) \<Rightarrow>
                             bind_err (calculateStats rt pr vs) (\<lambda>computed.
                               (let result =
                                      \<lparr>points = ps, vals = vs, timestamps = ts,
                                       stats = computed,
                                       timeRange = Some tr, sensor = Some sensor_name,
                                       isEmpty = None\<rparr>
                                in Inr (result, cache_store tm cacheKey result now))))))))"

text \<open>
  The readings \<^verbatim>\<open>getChartData\<close> aggregates when it computes: those of the lookback window,
  if the store is there to be asked.
\<close>

definition window_readings ::
  "jsval storage_manager option \<Rightarrow> int \<Rightarrow> string \<Rightarrow> jsval reading_record list" where
  "window_readings sm now tr =
     (case sm of
        None \<Rightarrow> []
      | Some storage \<Rightarrow>
          (case getReadingsLastHours storage now (hours_of tr) of
             Inl e \<Rightarrow> []
           | Inr found \<Rightarrow> found))"

text \<open>The values of a sensor in the readings of the window.\<close>

definition window_values :: "jsval storage_manager option \<Rightarrow> int \<Rightarrow> string \<Rightarrow> string \<Rightarrow> jsval list" where
  "window_values sm now tr sensor_name =
     fst (snd (extractSensorData (window_readings sm now tr) sensor_name))"






text \<open>The store, if there is one and it is open, answers the requests made to it.\<close>

definition store_answers :: "jsval storage_manager option \<Rightarrow> bool" where
  "store_answers sm =
     (case sm of
        None \<Rightarrow> True
      | Some storage \<Rightarrow> (case db storage of None \<Rightarrow> True | Some d \<Rightarrow> \<not> rejecting d))"

subsection \<open>Stores of the examples\<close>

text \<open>
  The Reading \<^verbatim>\<open>normalizeReading\<close> makes of
  \<^verbatim>\<open>{respiration: {value: 32}, environment: {co2: {value: v}}}\<close>, without its timestamp.
\<close>

definition sample_of_co2 :: "jsval \<Rightarrow> jsval" where
  "sample_of_co2 v =
     Obj [(''respiration'',
           Obj [(''value'', Num (Fin 32)), (''unit'', Str ''rpm''),
                (''confidence'', Num (Fin 1))]),
          (''audio'', Obj [(''state'', Str ''unknown''), (''level'', Num (Fin 0))]),
          (''bodyTemp'', Obj [(''value'', Null), (''unit'', Str ''C'')]),
          (''posture'', Obj [(''state'', Str ''unknown''), (''confidence'', Num (Fin 1))]),
          (''radar'', Obj [(''active'', Bool False), (''movement'', Num (Fin 0))]),
          (''environment'',
           Obj [(''temp'', Obj [(''value'', Null), (''unit'', Str ''C'')]),
                (''co2'', Obj [(''value'', v), (''unit'', Str ''ppm'')]),
                (''voc'', Obj [(''value'', Null)]),
                (''gas'', Obj [(''safe'', Bool True)])])]"

text \<open>The number a decimal literal of a JSON document stands for.\<close>

definition json_number :: "real \<Rightarrow> jsval" where
  "json_number x = Num (fl x)"

definition empty_store :: "jsval storage_manager" where
  "empty_store = \<lparr>db = Some empty_database, maxReadings = 10000, maxAlerts = 500\<rparr>"

text \<open>The empty store after one reading was saved at time 105000.\<close>

definition one_reading_store :: "jsval storage_manager" where
  "one_reading_store =
     \<lparr>db = Some
        \<lparr>readings =
           [\<lparr>r_id = 1, r_timestamp = 105000, r_body = sample_of_co2 (Num (Fin 450))\<rparr>],
         readings_key = 2, alerts = [], alerts_key = 1, rejecting = False\<rparr>,
      maxReadings = 10000, maxAlerts = 500\<rparr>"

text \<open>
  Three readings with a CO2 value (\<^verbatim>\<open>450.126\<close>, \<^verbatim>\<open>500.005\<close> and \<^verbatim>\<open>36.675\<close> in the payloads),
  stored out of the order of their timestamps.
\<close>

definition co2_store :: "jsval storage_manager" where
  "co2_store =
     \<lparr>db = Some
        \<lparr>readings =
           [\<lparr>r_id = 1, r_timestamp = 99000, r_body = sample_of_co2 (json_number 450.126)\<rparr>,
            \<lparr>r_id = 2, r_timestamp = 98000, r_body = sample_of_co2 (json_number 500.005)\<rparr>,
            \<lparr>r_id = 3, r_timestamp = 99500, r_body = sample_of_co2 (json_number 36.675)\<rparr>],
         readings_key = 4, alerts = [], alerts_key = 1, rejecting = False\<rparr>,
      maxReadings = 10000, maxAlerts = 500\<rparr>"


chapter \<open>Properties\<close>

section \<open>Reading normalizer\<close>











text \<open>
  A measurement value the payload supplies (neither \<^verbatim>\<open>undefined\<close> nor \<^verbatim>\<open>null\<close>) is passed
  through to the Reading unchanged, whatever its type.
\<close>

lemma normalizeReading_passes_through:
  assumes "normalizeReading data now = Inr r"
  shows "path r [''respiration'', ''value''] =
           coalesce (opt_member (js_get data ''respiration'') ''value'') Null \<and>
         path r [''bodyTemp'', ''value''] =
           coalesce (opt_member (js_get data ''body_temp'') ''value'') Null \<and>
         path r [''environment'', ''temp'', ''value''] =
           coalesce (env_field data ''temp'' ''value'') Null \<and>
         path r [''environment'', ''co2'', ''value''] =
           coalesce (env_field data ''co2'' ''value'') Null \<and>
         path r [''environment'', ''voc'', ''value''] =
           coalesce (env_field data ''voc'' ''value'') Null"
  using assms
  by (auto simp: normalizeReading_def Let_def env_field_def split: if_splits)

lemma coalesce_supplied: "\<not> nullish v \<Longrightarrow> coalesce v d = v"
  by (simp add: coalesce_def)




section \<open>Connection poller: timers and polls in flight\<close>

text \<open>
  A poller that is started once and then left alone has, at every moment, either one armed
  timer or one poll in flight, never both and never two of a kind.
\<close>

lemma one_cycle_perform:
  assumes "one_cycle p" and "undisturbed a"
  shows "one_cycle (perform p a)"
proof (cases a)
  case (Complete rid result)
  show ?thesis
  proof (cases "map_of (in_flight p) rid")
    case None
    then show ?thesis using assms(1) Complete by (simp add: poll_resume_def)
  next
    case (Some origin)
    then have "in_flight p \<noteq> []" by auto
    then obtain r u where i: "in_flight p = [(r, u)]" and pe: "pending p = []"
      using assms(1) by (auto simp: one_cycle_def)
    from Some i have r: "rid = r" by (simp split: if_splits)
    show ?thesis unfolding Complete
      by (cases result)
         (simp_all add: poll_resume_def Some i pe r Let_def one_cycle_def on_reading_def
            handleError_def)
  qed
next
  case (Fire h)
  show ?thesis
  proof (cases "List.member (pending p) h")
    case False
    then show ?thesis using assms(1) Fire by (simp add: timer_fire_def)
  next
    case True
    then have "pending p \<noteq> []" by (auto simp: List.member_iff)
    then have pe: "pending p = [h]" and i: "in_flight p = []"
      using assms(1) True by (auto simp: one_cycle_def List.member_iff)
    show ?thesis unfolding Fire
      by (simp add: timer_fire_def pe i List.member_iff poll_begin_def one_cycle_def)
  qed
qed (use assms(2) in simp_all)

lemma one_cycle_run:
  assumes "one_cycle p" and "list_all undisturbed actions"
  shows "one_cycle (run_actions p actions)"
  using assms unfolding run_actions_def
  by (induction actions arbitrary: p) (simp_all add: one_cycle_perform)

lemma undisturbed_poller_one_timer:
  assumes "list_all undisturbed actions"
  shows "length (pending (run_actions (start new_poller) actions)) +
         length (in_flight (run_actions (start new_poller) actions)) = 1"
proof -
  have "one_cycle (start new_poller)"
    by (simp add: one_cycle_def start_def poll_begin_def new_poller_def)
  from one_cycle_run[OF this assms] show ?thesis by (auto simp: one_cycle_def)
qed

text \<open>
  Claim C4 does not hold of the code. \<^verbatim>\<open>stop()\<close> clears the timer in \<^verbatim>\<open>this.pollTimer\<close> and
  nothing else, and \<^verbatim>\<open>configure\<close> is \<^verbatim>\<open>stop(); start()\<close>. Called while a poll is in flight,
  \<^verbatim>\<open>stop()\<close> finds no armed timer; the poll in flight still completes, delivers its events and
  arms a timer. After \<^verbatim>\<open>start(); stop()\<close> the completion of the first request arms timer 1.
  After \<^verbatim>\<open>start(); configure(...)\<close> the completion of the request sent to the old address
  delivers \<^verbatim>\<open>connected\<close> and \<^verbatim>\<open>data\<close>, and once both requests have completed two timers
  are armed.
\<close>

theorem stop_leaves_poll_in_flight:
  "pending (run_actions new_poller [Start, Stop]) = [] \<and>
   in_flight (run_actions new_poller [Start, Stop]) = [(0, ''http://192.168.4.1:80'')] \<and>
   pending (run_actions new_poller [Start, Stop, Complete 0 (Ok apnea_reading)]) = [1] \<and>
   delivered
     (run_actions new_poller
        [Start, Configure ''10.0.0.2'' ''8080'' 2000, Complete 0 (Ok apnea_reading)]) =
     [(''http://192.168.4.1:80'', Connected ''10.0.0.2''),
      (''http://192.168.4.1:80'', Data apnea_reading)] \<and>
   pending
     (run_actions new_poller
        [Start, Configure ''10.0.0.2'' ''8080'' 2000, Complete 0 (Ok apnea_reading),
         Complete 1 (Ok apnea_reading)]) = [1, 2]"
  by (simp add: run_actions_def start_def stop_def configure_def poll_begin_def poll_resume_def
      on_reading_def new_poller_def url_def Let_def)

section \<open>Retention of the readings store\<close>

lemma cursor_delete_filter:
  "cursor_delete kf deleted n cursor store =
   filter (\<lambda>r. kf r \<notin> kf ` set (take (n - deleted) cursor)) store"
proof (induction cursor arbitrary: deleted store)
  case Nil
  then show ?case by simp
next
  case (Cons c cursor)
  show ?case
  proof (cases "deleted < n")
    case True
    then have t: "n - deleted = Suc (n - Suc deleted)" by arith
    show ?thesis using True Cons.IH[of "Suc deleted"] unfolding t
      by (auto intro: filter_cong)
  next
    case False
    then show ?thesis by simp
  qed
qed

lemma filter_keys_drop:
  assumes "distinct (map kf xs)"
  shows "filter (\<lambda>r. kf r \<notin> kf ` set (take n xs)) xs = drop n xs"
proof -
  let ?P = "\<lambda>r. kf r \<notin> kf ` set (take n xs)"
  have a: "filter ?P (take n xs) = []"
    by (auto simp: filter_empty_conv)
  have "distinct (map kf (take n xs @ drop n xs))" using assms by simp
  then have "kf ` set (take n xs) \<inter> kf ` set (drop n xs) = {}"
    unfolding map_append distinct_append by simp
  then have b: "filter ?P (drop n xs) = drop n xs"
    by (auto simp: filter_id_conv)
  have "filter ?P xs = filter ?P (take n xs) @ filter ?P (drop n xs)"
    by (metis append_take_drop_id filter_append)
  then show ?thesis using a b by simp
qed

lemma keys_ok_distinct: "keys_ok ks k \<Longrightarrow> distinct ks"
  by (simp add: keys_ok_def strict_sorted_iff)

lemma keys_ok_sorted: "keys_ok ks k \<Longrightarrow> sorted ks"
  by (simp add: keys_ok_def strict_sorted_iff)

lemma keys_ok_append: "keys_ok ks k \<Longrightarrow> keys_ok (ks @ [k]) (Suc k)"
  by (auto simp: keys_ok_def sorted_wrt_append list_all_iff less_Suc_eq)

lemma keys_ok_drop: "keys_ok ks k \<Longrightarrow> keys_ok (drop n ks) k"
  by (auto simp: keys_ok_def sorted_wrt_drop list_all_iff dest: in_set_dropD)

lemma cleanupOldReadings_drop:
  assumes "db sm = Some d" "\<not> rejecting d" "keys_ok (map r_id (readings d)) k"
  shows "cleanupOldReadings sm =
         sm\<lparr>db := Some (d\<lparr>readings := drop (length (readings d) - maxReadings sm) (readings d)\<rparr>)\<rparr>"
proof -
  have s: "sort_key r_id (readings d) = readings d"
    using keys_ok_sorted[OF assms(3)] by (rule sort_key_id_if_sorted)
  have dd: "distinct (map r_id (readings d))" using assms(3) by (rule keys_ok_distinct)
  show ?thesis
  proof (cases "length (readings d) > maxReadings sm")
    case True
    then show ?thesis using assms(1,2)
      by (simp add: cleanupOldReadings_def Let_def s cursor_delete_filter filter_keys_drop[OF dd])
  next
    case False
    then have "drop (length (readings d) - maxReadings sm) (readings d) = readings d" by simp
    then show ?thesis using False assms(1,2) by (simp add: cleanupOldReadings_def Let_def)
  qed
qed


lemma drop_append_le: "n \<le> length xs \<Longrightarrow> drop n xs @ ys = drop n (xs @ ys)"
  by simp

lemma keep_last_step:
  assumes "length R \<le> m"
  shows "drop (length (drop (Suc (length R) - m) (R @ [r])) + length Y - m)
              (drop (Suc (length R) - m) (R @ [r]) @ Y) =
         drop (length R + Suc (length Y) - m) (R @ r # Y)"
proof -
  let ?b = "Suc (length R) - m"
  have b: "?b \<le> length (R @ [r])" by simp
  have 1: "drop ?b (R @ [r]) @ Y = drop ?b ((R @ [r]) @ Y)" using b by (rule drop_append_le)
  have 2: "length (drop ?b (R @ [r])) + length Y - m + ?b = length R + Suc (length Y) - m"
    using assms by simp
  have 3: "(R @ [r]) @ Y = R @ r # Y" by simp
  show ?thesis unfolding 1 drop_drop 2 3 by (rule refl)
qed

lemma saveReading_eq:
  assumes "db sm = Some d" "\<not> rejecting d" "keys_ok (map r_id (readings d)) (readings_key d)"
  shows "saveReading sm now ts body =
     Inr (readings_key d,
          sm\<lparr>db := Some (d\<lparr>readings :=
                   drop (Suc (length (readings d)) - maxReadings sm)
                     (readings d @ [\<lparr>r_id = readings_key d,
                                     r_timestamp = timestamp_or_now ts now, r_body = body\<rparr>]),
                 readings_key := Suc (readings_key d)\<rparr>)\<rparr>)"
proof -
  let ?r = "\<lparr>r_id = readings_key d, r_timestamp = timestamp_or_now ts now, r_body = body\<rparr>"
  let ?d = "d\<lparr>readings := readings d @ [?r], readings_key := Suc (readings_key d)\<rparr>"
  have k: "keys_ok (map r_id (readings ?d)) (Suc (readings_key d))"
    using keys_ok_append[OF assms(3)] by simp
  have "cleanupOldReadings (sm\<lparr>db := Some ?d\<rparr>) =
        (sm\<lparr>db := Some ?d\<rparr>)\<lparr>db := Some (?d\<lparr>readings :=
           drop (length (readings ?d) - maxReadings (sm\<lparr>db := Some ?d\<rparr>)) (readings ?d)\<rparr>)\<rparr>"
    by (rule cleanupOldReadings_drop[OF _ _ k]) (use assms(2) in simp_all)
  then show ?thesis using assms(1,2) by (simp add: saveReading_def Let_def)
qed

lemma map_id_records_from: "map r_id (records_from k xs) = [k..<k + length xs]"
proof (induction xs arbitrary: k)
  case Nil
  then show ?case by simp
next
  case (Cons x xs)
  obtain now ts body where x: "x = (now, ts, body)" by (cases x)
  have "[k..<k + length (x # xs)] = k # [Suc k..<Suc k + length xs]"
    by (simp add: upt_conv_Cons del: upt_Suc)
  then show ?case using Cons.IH[of "Suc k"] by (simp add: x del: upt_Suc)
qed

lemma length_records_from: "length (records_from k xs) = length xs"
  using arg_cong[OF map_id_records_from[of k xs], of length] by simp

lemma saveReadings_drop:
  assumes "db sm = Some d" "\<not> rejecting d" "keys_ok (map r_id (readings d)) (readings_key d)"
    and "length (readings d) \<le> maxReadings sm"
  shows "saveReadings sm xs =
     Inr (sm\<lparr>db := Some (d\<lparr>readings :=
                 drop (length (readings d) + length xs - maxReadings sm)
                   (readings d @ records_from (readings_key d) xs),
               readings_key := readings_key d + length xs\<rparr>)\<rparr>)"
  using assms
proof (induction xs arbitrary: sm d)
  case Nil
  then show ?case by simp
next
  case (Cons x xs)
  obtain now ts body where x: "x = (now, ts, body)" by (cases x)
  let ?r = "\<lparr>r_id = readings_key d, r_timestamp = timestamp_or_now ts now, r_body = body\<rparr>"
  let ?b = "Suc (length (readings d)) - maxReadings sm"
  let ?d = "d\<lparr>readings := drop ?b (readings d @ [?r]), readings_key := Suc (readings_key d)\<rparr>"
  let ?sm = "sm\<lparr>db := Some ?d\<rparr>"
  have s1: "saveReading sm now ts body = Inr (readings_key d, ?sm)"
    by (rule saveReading_eq[OF Cons.prems(1,2,3)])
  have m: "map r_id (readings d @ [?r]) = map r_id (readings d) @ [readings_key d]" by simp
  have k0: "keys_ok (drop ?b (map r_id (readings d @ [?r]))) (Suc (readings_key d))"
    unfolding m by (rule keys_ok_drop[OF keys_ok_append[OF Cons.prems(3)]])
  have rd: "readings ?d = drop ?b (readings d @ [?r])" by simp
  have rk: "readings_key ?d = Suc (readings_key d)" by simp
  have k: "keys_ok (map r_id (readings ?d)) (readings_key ?d)"
    unfolding rd rk drop_map[symmetric] by (rule k0)
  have l: "length (readings ?d) \<le> maxReadings ?sm" using Cons.prems(4) by simp
  have ih: "saveReadings ?sm xs =
     Inr (?sm\<lparr>db := Some (?d\<lparr>readings :=
                 drop (length (readings ?d) + length xs - maxReadings ?sm)
                   (readings ?d @ records_from (readings_key ?d) xs),
               readings_key := readings_key ?d + length xs\<rparr>)\<rparr>)"
    by (rule Cons.IH[OF _ _ k l]) (use Cons.prems(2) in simp_all)
  have e: "drop (length (readings ?d) + length xs - maxReadings ?sm)
             (readings ?d @ records_from (readings_key ?d) xs) =
           drop (length (readings d) + length (x # xs) - maxReadings sm)
             (readings d @ records_from (readings_key d) (x # xs))"
    using keep_last_step[OF Cons.prems(4), of ?r "records_from (Suc (readings_key d)) xs"]
    by (simp add: x length_records_from)
  show ?case unfolding x using s1 ih e by (simp add: x)
qed


text \<open>
  Claim C5. On a database that accepts the writes, whose readings store is in the state the
  key generator maintains and holds at most \<open>maxReadings\<close> records, saving
  \<open>maxReadings + k\<close> readings one after the other succeeds and leaves exactly \<open>maxReadings\<close>
  records: those made of the last \<open>maxReadings\<close> readings saved, which carry the highest
  identifiers. Which records stay depends on the order of insertion only; the timestamps of
  the readings are arbitrary.
\<close>

theorem saveReadings_keeps_newest:
  assumes "db sm = Some d" and "\<not> rejecting d"
    and "keys_ok (map r_id (readings d)) (readings_key d)"
    and "length (readings d) \<le> maxReadings sm"
    and "length xs = maxReadings sm + k"
  shows "\<exists>sm' d'. saveReadings sm xs = Inr sm' \<and> db sm' = Some d' \<and>
           length (readings d') = maxReadings sm \<and>
           readings d' = drop k (records_from (readings_key d) xs) \<and>
           map r_id (readings d') = [readings_key d + k..<readings_key d + length xs]"
proof -
  let ?new = "records_from (readings_key d) xs"
  let ?d = "d\<lparr>readings := drop (length (readings d) + length xs - maxReadings sm)
                   (readings d @ ?new),
               readings_key := readings_key d + length xs\<rparr>"
  have s: "saveReadings sm xs = Inr (sm\<lparr>db := Some ?d\<rparr>)"
    by (rule saveReadings_drop[OF assms(1-4)])
  have r: "readings ?d = drop k ?new"
    using assms(5) by (simp add: add.commute add.left_commute)
  have l: "length (drop k ?new) = maxReadings sm"
    using assms(5) by (simp add: length_records_from)
  have i: "map r_id (drop k ?new) = [readings_key d + k..<readings_key d + length xs]"
    unfolding drop_map[symmetric] map_id_records_from by (simp add: drop_upt)
  show ?thesis using s r l i by (intro exI[of _ "sm\<lparr>db := Some ?d\<rparr>"] exI[of _ ?d]) simp
qed

theorem saveReadings_keeps_newest_witness:
  "saveReadings
     \<lparr>db = Some empty_database, maxReadings = 2, maxAlerts = 500\<rparr>
     [(1000, Some 300, ''a''), (1001, Some 200, ''b''), (1002, Some 100, ''c'')] =
   Inr \<lparr>db = Some
          \<lparr>readings = [\<lparr>r_id = 2, r_timestamp = 200, r_body = ''b''\<rparr>,
                       \<lparr>r_id = 3, r_timestamp = 100, r_body = ''c''\<rparr>],
           readings_key = 4, alerts = [], alerts_key = 1, rejecting = False\<rparr>,
        maxReadings = 2, maxAlerts = 500\<rparr>"
proof -
  let ?sm = "\<lparr>db = Some empty_database, maxReadings = 2, maxAlerts = 500\<rparr> :: string storage_manager"
  let ?xs = "[(1000, Some 300, ''a''), (1001, Some 200, ''b''), (1002, Some 100, ''c'')] :: (int \<times> int option \<times> string) list"
  let ?d = "empty_database :: string database"
  have h1: "db ?sm = Some ?d" by simp
  have h2: "\<not> rejecting ?d" by (simp add: empty_database_def)
  have h3: "keys_ok (map r_id (readings ?d)) (readings_key ?d)"
    by (simp add: empty_database_def keys_ok_def)
  have h4: "length (readings ?d) \<le> maxReadings ?sm" by (simp add: empty_database_def)
  have h5: "length ?xs = maxReadings ?sm + 1" by simp
  from saveReadings_keeps_newest[OF h1 h2 h3 h4 h5]
  obtain sm' d' where a: "saveReadings ?sm ?xs = Inr sm'" "db sm' = Some d'"
    "length (readings d') = maxReadings ?sm" by blast
  have e: "saveReadings ?sm ?xs =
    Inr \<lparr>db = Some
          \<lparr>readings = [\<lparr>r_id = 2, r_timestamp = 200, r_body = ''b''\<rparr>,
                       \<lparr>r_id = 3, r_timestamp = 100, r_body = ''c''\<rparr>],
           readings_key = 4, alerts = [], alerts_key = 1, rejecting = False\<rparr>,
        maxReadings = 2, maxAlerts = 500\<rparr>"
    by code_simp
  show ?thesis using a e by simp
qed

section \<open>Retention of the alerts store\<close>

lemma cursor_delete_sorted:
  fixes g :: "'a \<Rightarrow> 'k::linorder"
  assumes d: "distinct (map kf store)"
  defines "cursor \<equiv> sort_key g store"
  shows "set (cursor_delete kf 0 n cursor store) = set (drop n cursor)"
    and "length (cursor_delete kf 0 n cursor store) = length store - n"
    and "cursor_delete kf 0 n cursor store = filter (\<lambda>r. r \<in> set (drop n cursor)) store"
    and "\<forall>e\<in>set (take n cursor). \<forall>s\<in>set (drop n cursor). g e \<le> g s \<and> e \<noteq> s"
proof -
  have ds: "distinct store" using d by (simp add: distinct_map)
  have inj: "inj_on kf (set store)" using d by (simp add: distinct_map)
  have sc: "set cursor = set store" by (simp add: cursor_def)
  have dc: "distinct cursor" using ds by (simp add: cursor_def)
  have disj: "set (take n cursor) \<inter> set (drop n cursor) = {}"
    using dc by (metis append_take_drop_id distinct_append)
  have un: "set (take n cursor) \<union> set (drop n cursor) = set store"
    using sc by (metis append_take_drop_id set_append)
  have sub: "set (take n cursor) \<subseteq> set store" using un by blast
  have mem: "\<And>r. r \<in> set store \<Longrightarrow> (kf r \<notin> kf ` set (take n cursor)) = (r \<in> set (drop n cursor))"
  proof -
    fix r assume r: "r \<in> set store"
    have "kf r \<in> kf ` set (take n cursor) \<longleftrightarrow> r \<in> set (take n cursor)"
      using inj r sub by (meson inj_on_image_mem_iff)
    then show "(kf r \<notin> kf ` set (take n cursor)) = (r \<in> set (drop n cursor))"
      using r un disj by blast
  qed
  have f: "cursor_delete kf 0 n cursor store = filter (\<lambda>r. r \<in> set (drop n cursor)) store"
    unfolding cursor_delete_filter by (rule filter_cong) (simp_all add: mem)
  show "cursor_delete kf 0 n cursor store = filter (\<lambda>r. r \<in> set (drop n cursor)) store" by (rule f)
  show s: "set (cursor_delete kf 0 n cursor store) = set (drop n cursor)"
    unfolding f using un by auto
  have "distinct (cursor_delete kf 0 n cursor store)" unfolding f using ds by simp
  then have "length (cursor_delete kf 0 n cursor store) = card (set (drop n cursor))"
    using s by (metis distinct_card)
  also have "\<dots> = length (drop n cursor)" using dc by (simp add: distinct_card)
  also have "\<dots> = length store - n" by (simp add: cursor_def)
  finally show "length (cursor_delete kf 0 n cursor store) = length store - n" .
  have "sorted (map g cursor)" by (simp add: cursor_def)
  then have "sorted (map g (take n cursor) @ map g (drop n cursor))"
    by (metis append_take_drop_id map_append)
  then have "\<forall>x\<in>set (map g (take n cursor)). \<forall>y\<in>set (map g (drop n cursor)). x \<le> y"
    by (simp add: sorted_append)
  then show "\<forall>e\<in>set (take n cursor). \<forall>s\<in>set (drop n cursor). g e \<le> g s \<and> e \<noteq> s"
    using disj by auto
qed


lemma a_id_stored_alert [simp]: "a_id (stored_alert k now a) = k"
  by (simp add: stored_alert_def)

lemma cleanupOldAlerts_eq:
  assumes "db sm = Some d" and "\<not> rejecting d"
  shows "cleanupOldAlerts sm =
     (if length (alerts d) > maxAlerts sm
      then sm\<lparr>db := Some (d\<lparr>alerts :=
             cursor_delete a_id 0 (length (alerts d) - maxAlerts sm)
               (sort_key (\<lambda>r. (timestamp r, a_id r)) (alerts d)) (alerts d)\<rparr>)\<rparr>
      else sm)"
  using assms by (simp add: cleanupOldAlerts_def Let_def)

lemma saveAlert_eq:
  assumes "db sm = Some d" and "\<not> rejecting d"
  shows "saveAlert sm now a =
     Inr (alerts_key d,
          cleanupOldAlerts (sm\<lparr>db := Some (d\<lparr>alerts := alerts d @ [stored_alert (alerts_key d) now a],
                                              alerts_key := Suc (alerts_key d)\<rparr>)\<rparr>))"
  using assms by (simp add: saveAlert_def Let_def)

text \<open>
  Claim C6, as amended. After every \<^verbatim>\<open>saveAlert\<close> on a database that accepts the write, the
  alerts store holds the old records and the new one, in their order, but for the ones evicted;
  their number is the ceiling \<open>maxAlerts\<close> when the count exceeded it. Every evicted
  record is older by timestamp than every record kept and, where the timestamps are equal,
  has the lower identifier: eviction follows the timestamps, not the order of insertion.
\<close>

theorem saveAlert_evicts_lowest_timestamp:
  assumes "db sm = Some d" and "\<not> rejecting d"
    and "keys_ok (map a_id (alerts d)) (alerts_key d)"
  shows "\<exists>sm' d'. saveAlert sm now a = Inr (alerts_key d, sm') \<and> db sm' = Some d' \<and>
      (let all = alerts d @ [stored_alert (alerts_key d) now a] in
        alerts d' = filter (\<lambda>r. r \<in> set (alerts d')) all \<and>
        length (alerts d') = min (length all) (maxAlerts sm) \<and>
        (\<forall>e\<in>set all - set (alerts d'). \<forall>s\<in>set (alerts d').
            timestamp e < timestamp s \<or> (timestamp e = timestamp s \<and> a_id e < a_id s)))"
proof -
  define r where "r = stored_alert (alerts_key d) now a"
  define all where "all = alerts d @ [r]"
  define d1 where "d1 = d\<lparr>alerts := all, alerts_key := Suc (alerts_key d)\<rparr>"
  define g where "g = (\<lambda>r::alert_record. (timestamp r, a_id r))"
  define cursor where "cursor = sort_key g all"
  define n where "n = length all - maxAlerts sm"
  define kept where "kept = cursor_delete a_id 0 n cursor all"
  have k: "keys_ok (map a_id all) (Suc (alerts_key d))"
    using keys_ok_append[OF assms(3)] by (simp add: all_def r_def)
  have dist: "distinct (map a_id all)" using k by (rule keys_ok_distinct)
  have d1: "db (sm\<lparr>db := Some d1\<rparr>) = Some d1" "\<not> rejecting d1"
    "alerts d1 = all" "maxAlerts (sm\<lparr>db := Some d1\<rparr>) = maxAlerts sm"
    using assms(2) by (simp_all add: d1_def)
  have sv: "saveAlert sm now a = Inr (alerts_key d, cleanupOldAlerts (sm\<lparr>db := Some d1\<rparr>))"
    unfolding d1_def all_def r_def by (rule saveAlert_eq[OF assms(1,2)])
  have cl: "cleanupOldAlerts (sm\<lparr>db := Some d1\<rparr>) =
     (if length all > maxAlerts sm then sm\<lparr>db := Some (d1\<lparr>alerts := kept\<rparr>)\<rparr>
      else sm\<lparr>db := Some d1\<rparr>)"
    using cleanupOldAlerts_eq[OF d1(1,2)] unfolding d1(3,4) kept_def cursor_def n_def g_def
    by simp
  have goal: "\<exists>d'. (if length all > maxAlerts sm then d1\<lparr>alerts := kept\<rparr> else d1) = d' \<and>
        alerts d' = filter (\<lambda>r. r \<in> set (alerts d')) all \<and>
        length (alerts d') = min (length all) (maxAlerts sm) \<and>
        (\<forall>e\<in>set all - set (alerts d'). \<forall>s\<in>set (alerts d').
            timestamp e < timestamp s \<or> (timestamp e = timestamp s \<and> a_id e < a_id s))"
  proof (cases "length all > maxAlerts sm")
    case False
    have "filter (\<lambda>r. r \<in> set all) all = all" by (simp add: filter_id_conv)
    then show ?thesis using False d1(3) by simp
  next
    case True
    note cd = cursor_delete_sorted[OF dist, where g = g and n = n]
    have s: "set kept = set (drop n cursor)" unfolding kept_def cursor_def by (rule cd(1))
    have "length kept = length all - n" unfolding kept_def cursor_def by (rule cd(2))
    then have l: "length kept = min (length all) (maxAlerts sm)" using True by (simp add: n_def)
    have "kept = filter (\<lambda>r. r \<in> set (drop n cursor)) all"
      unfolding kept_def cursor_def by (rule cd(3))
    then have f: "kept = filter (\<lambda>r. r \<in> set kept) all" unfolding s .
    have sc: "set cursor = set all" by (simp add: cursor_def)
    have un: "set (take n cursor) \<union> set (drop n cursor) = set all"
      using sc by (metis append_take_drop_id set_append)
    have o: "\<forall>e\<in>set all - set kept. \<forall>s\<in>set kept.
            timestamp e < timestamp s \<or> (timestamp e = timestamp s \<and> a_id e < a_id s)"
    proof (intro ballI)
      fix e s assume e: "e \<in> set all - set kept" and s': "s \<in> set kept"
      have et: "e \<in> set (take n cursor)" using e un s by blast
      have sd: "s \<in> set (drop n cursor)" using s' s by simp
      from cd(4) et sd have le: "g e \<le> g s" and ne: "e \<noteq> s"
        unfolding cursor_def by blast+
      have ea: "e \<in> set all" using e by blast
      have sa: "s \<in> set all" using sd un by blast
      have "inj_on a_id (set all)" using dist by (simp add: distinct_map)
      then have "a_id e \<noteq> a_id s" using ea sa ne by (meson inj_on_contraD)
      then show "timestamp e < timestamp s \<or> (timestamp e = timestamp s \<and> a_id e < a_id s)"
        using le by (auto simp: less_eq_prod_def g_def)
    qed
    have "alerts (d1\<lparr>alerts := kept\<rparr>) = kept" by simp
    then show ?thesis using True l f o by simp
  qed
  then obtain d' where d': "(if length all > maxAlerts sm then d1\<lparr>alerts := kept\<rparr> else d1) = d'"
    and p: "alerts d' = filter (\<lambda>r. r \<in> set (alerts d')) all"
       "length (alerts d') = min (length all) (maxAlerts sm)"
       "\<forall>e\<in>set all - set (alerts d'). \<forall>s\<in>set (alerts d').
            timestamp e < timestamp s \<or> (timestamp e = timestamp s \<and> a_id e < a_id s)"
    by blast
  have sv': "saveAlert sm now a = Inr (alerts_key d, sm\<lparr>db := Some d'\<rparr>)"
    unfolding sv cl using d' by (simp split: if_splits)
  have dbm: "db (sm\<lparr>db := Some d'\<rparr>) = Some d'" by simp
  show ?thesis
    unfolding Let_def all_def[symmetric, unfolded r_def]
    using sv' dbm p by blast
qed


theorem saveAlert_evicts_lowest_timestamp_witness:
  "saveAlert
     \<lparr>db = Some
        \<lparr>readings = ([] :: unit reading_record list), readings_key = 1,
         alerts =
           [\<lparr>severity = WARNING, title = ''High VOC Levels'', description = [],
             key = ''voc_high'', timestamp = 300, a_id = 1, acknowledged = False\<rparr>,
            \<lparr>severity = CRITICAL, title = ''Gas Safety Alert'', description = [],
             key = ''gas_unsafe'', timestamp = 100, a_id = 2, acknowledged = False\<rparr>],
         alerts_key = 3, rejecting = False\<rparr>,
      maxReadings = 10000, maxAlerts = 2\<rparr>
     5000
     \<lparr>severity = WARNING, title = ''Prone Position (Camera)'', description = [],
      key = ''posture_prone'', timestamp = 200\<rparr> =
   Inr (3,
     \<lparr>db = Some
        \<lparr>readings = [], readings_key = 1,
         alerts =
           [\<lparr>severity = WARNING, title = ''High VOC Levels'', description = [],
             key = ''voc_high'', timestamp = 300, a_id = 1, acknowledged = False\<rparr>,
            \<lparr>severity = WARNING, title = ''Prone Position (Camera)'', description = [],
             key = ''posture_prone'', timestamp = 200, a_id = 3, acknowledged = False\<rparr>],
         alerts_key = 4, rejecting = False\<rparr>,
      maxReadings = 10000, maxAlerts = 2\<rparr>)"
proof -
  let ?d = "\<lparr>readings = ([] :: unit reading_record list), readings_key = 1,
         alerts =
           [\<lparr>severity = WARNING, title = ''High VOC Levels'', description = [],
             key = ''voc_high'', timestamp = 300, a_id = 1, acknowledged = False\<rparr>,
            \<lparr>severity = CRITICAL, title = ''Gas Safety Alert'', description = [],
             key = ''gas_unsafe'', timestamp = 100, a_id = 2, acknowledged = False\<rparr>],
         alerts_key = 3, rejecting = False\<rparr>"
  let ?sm = "\<lparr>db = Some ?d, maxReadings = 10000, maxAlerts = 2\<rparr>"
  let ?a = "\<lparr>severity = WARNING, title = ''Prone Position (Camera)'', description = [],
      key = ''posture_prone'', timestamp = 200\<rparr>"
  have h1: "db ?sm = Some ?d" by simp
  have h2: "\<not> rejecting ?d" by simp
  have h3: "keys_ok (map a_id (alerts ?d)) (alerts_key ?d)" by (simp add: keys_ok_def)
  from saveAlert_evicts_lowest_timestamp[OF h1 h2 h3, of 5000 ?a]
  obtain sm' where "saveAlert ?sm 5000 ?a = Inr (alerts_key ?d, sm')" by blast
  moreover have "saveAlert ?sm 5000 ?a = Inr (3,
     \<lparr>db = Some
        \<lparr>readings = [], readings_key = 1,
         alerts =
           [\<lparr>severity = WARNING, title = ''High VOC Levels'', description = [],
             key = ''voc_high'', timestamp = 300, a_id = 1, acknowledged = False\<rparr>,
            \<lparr>severity = WARNING, title = ''Prone Position (Camera)'', description = [],
             key = ''posture_prone'', timestamp = 200, a_id = 3, acknowledged = False\<rparr>],
         alerts_key = 4, rejecting = False\<rparr>,
      maxReadings = 10000, maxAlerts = 2\<rparr>)"
    by code_simp
  ultimately show ?thesis by simp
qed

text \<open>
  The claim as stated fails: with ceiling 1 and one stored alert of timestamp 200, saving an
  alert of timestamp 100 evicts the alert just inserted (identifier 2) and keeps the one
  inserted first (identifier 1).
\<close>

theorem saveAlert_insertion_order_counterexample:
  "saveAlert
     \<lparr>db = Some
        \<lparr>readings = ([] :: unit reading_record list), readings_key = 1,
         alerts =
           [\<lparr>severity = WARNING, title = ''High VOC Levels'', description = [],
             key = ''voc_high'', timestamp = 200, a_id = 1, acknowledged = False\<rparr>],
         alerts_key = 2, rejecting = False\<rparr>,
      maxReadings = 10000, maxAlerts = 1\<rparr>
     5000
     \<lparr>severity = CRITICAL, title = ''Gas Safety Alert'', description = [],
      key = ''gas_unsafe'', timestamp = 100\<rparr> =
   Inr (2,
     \<lparr>db = Some
        \<lparr>readings = [], readings_key = 1,
         alerts =
           [\<lparr>severity = WARNING, title = ''High VOC Levels'', description = [],
             key = ''voc_high'', timestamp = 200, a_id = 1, acknowledged = False\<rparr>],
         alerts_key = 3, rejecting = False\<rparr>,
      maxReadings = 10000, maxAlerts = 1\<rparr>)"
  by code_simp

section \<open>Alert cooldown\<close>








lemma one_of_keys: "one_of K now as \<Longrightarrow> set (map key as) \<subseteq> K \<and> distinct (map key as) \<and> list_all (\<lambda>a. timestamp a = now) as"
  by (auto simp: one_of_def)




















lemma evaluate_apnea_reading:
  "evaluate default_thresholds rt apnea_reading now =
   Inr [createAlert CRITICAL ''Apnea Detected (mmWave)''
          [Lit ''No respiration detected for 15 seconds. Current: '', Interp (Num (Fin 15)),
           Lit '' rpm'']
          ''respiration_low'' now]"
  by (simp add: evaluate_def check_respiration_def check_co2_def check_bodyTemp_def
      check_posture_def check_voc_def check_gas_def check_audio_def bind_err_def
      member_def opt_member_def nullish_def js_lt_def js_gt_def
      apnea_reading_def default_thresholds_def)


section \<open>A rejected save\<close>

text \<open>
  Claim C3 does not hold of the code: \<^verbatim>\<open>triggerAlert\<close> awaits \<^verbatim>\<open>saveAlert\<close> outside any
  \<^verbatim>\<open>try\<close>, so a rejected save ends it before \<^verbatim>\<open>this.emit('alert', alert)\<close>. On the database
  that rejects the writes the save fails, no \<^verbatim>\<open>'alert'\<close> event is emitted, and the cooldown of
  the key is armed all the same; on the database that accepts them the same alert is
  persisted and emitted.
\<close>

theorem triggerAlert_rejected_save_emits_nothing:
  "effects (triggerAlert rejecting_state
      (createAlert CRITICAL ''Apnea Detected (mmWave)''
         [Lit ''No respiration detected for 15 seconds. Current: '', Interp (Num (Fin 15)),
          Lit '' rpm'']
         ''respiration_low'' 100000) 100000) = [] \<and>
   lastAlerts (triggerAlert rejecting_state
      (createAlert CRITICAL ''Apnea Detected (mmWave)''
         [Lit ''No respiration detected for 15 seconds. Current: '', Interp (Num (Fin 15)),
          Lit '' rpm'']
         ''respiration_low'' 100000) 100000) ''respiration_low'' = Some 100000 \<and>
   effects (triggerAlert sample_state
      (createAlert CRITICAL ''Apnea Detected (mmWave)''
         [Lit ''No respiration detected for 15 seconds. Current: '', Interp (Num (Fin 15)),
          Lit '' rpm'']
         ''respiration_low'' 100000) 100000) =
     [Persisted (createAlert CRITICAL ''Apnea Detected (mmWave)''
         [Lit ''No respiration detected for 15 seconds. Current: '', Interp (Num (Fin 15)),
          Lit '' rpm'']
         ''respiration_low'' 100000),
      Emitted (createAlert CRITICAL ''Apnea Detected (mmWave)''
         [Lit ''No respiration detected for 15 seconds. Current: '', Interp (Num (Fin 15)),
          Lit '' rpm'']
         ''respiration_low'' 100000)]"
  by (simp add: triggerAlert_def rejecting_state_def sample_state_def new_alerts_state_def
      empty_database_def saveAlert_def cleanupOldAlerts_def createAlert_def Let_def)

text \<open>
  The same through \<^verbatim>\<open>checkReading\<close>: the reading of the example triggers the apnea alert,
  which \<^verbatim>\<open>checkReading\<close> returns, and nothing is emitted.
\<close>

lemma checkReading_rejected_save_emits_nothing:
  "map_sum id (\<lambda>(as, st). (map key as, effects st))
     (checkReading rejecting_state rt apnea_reading 100000) =
   Inr ([''respiration_low''], [])"
  by (simp add: checkReading_def evaluate_apnea_reading bind_err_def process_alert_def
      shouldTriggerAlert_def triggerAlert_def rejecting_state_def new_alerts_state_def
      empty_database_def saveAlert_def createAlert_def Let_def)

section \<open>Totality of \<^verbatim>\<open>checkReading\<close> on normalized readings\<close>

lemma js_lt_convertible: "convertible v \<Longrightarrow> \<exists>b. js_lt rt v m = Inr b"
  by (simp add: js_lt_def)

lemma js_gt_convertible: "convertible v \<Longrightarrow> \<exists>b. js_gt rt v m = Inr b"
  by (simp add: js_gt_def)

lemma check_respiration_total:
  assumes "\<not> nullish r" and "\<not> nullish (js_get r ''respiration'')"
    and "convertible (js_get (js_get r ''respiration'') ''value'')"
  shows "\<exists>as. check_respiration th rt r now = Inr as"
proof -
  obtain lo where lo: "js_lt rt (js_get (js_get r ''respiration'') ''value'')
      (min_t (th_respiration th)) = Inr lo"
    using js_lt_convertible[OF assms(3)] by blast
  obtain hi where hi: "js_gt rt (js_get (js_get r ''respiration'') ''value'')
      (max_t (th_respiration th)) = Inr hi"
    using js_gt_convertible[OF assms(3)] by blast
  show ?thesis using assms(1,2) lo hi
    by (simp add: check_respiration_def bind_err_def member_def opt_member_def)
qed

lemma check_bodyTemp_total:
  assumes "\<not> nullish r" and "\<not> nullish (js_get r ''bodyTemp'')"
    and "convertible (js_get (js_get r ''bodyTemp'') ''value'')"
  shows "\<exists>as. check_bodyTemp th rt r now = Inr as"
proof -
  obtain lo where lo: "js_lt rt (js_get (js_get r ''bodyTemp'') ''value'')
      (min_t (th_bodyTemp th)) = Inr lo"
    using js_lt_convertible[OF assms(3)] by blast
  obtain hi where hi: "js_gt rt (js_get (js_get r ''bodyTemp'') ''value'')
      (max_t (th_bodyTemp th)) = Inr hi"
    using js_gt_convertible[OF assms(3)] by blast
  show ?thesis using assms(1,2) lo hi
    by (simp add: check_bodyTemp_def bind_err_def member_def opt_member_def)
qed

lemma check_co2_total:
  assumes "\<not> nullish r" and "\<not> nullish (js_get r ''environment'')"
    and "\<not> nullish (js_get (js_get r ''environment'') ''co2'')"
    and "convertible (js_get (js_get (js_get r ''environment'') ''co2'') ''value'')"
  shows "\<exists>as. check_co2 th rt r now = Inr as"
proof -
  obtain hi where hi: "js_gt rt (js_get (js_get (js_get r ''environment'') ''co2'') ''value'')
      (max_t (th_co2 th)) = Inr hi"
    using js_gt_convertible[OF assms(4)] by blast
  show ?thesis using assms(1,2,3) hi
    by (simp add: check_co2_def bind_err_def member_def opt_member_def)
qed

lemma check_voc_total:
  assumes "\<not> nullish r" and "\<not> nullish (js_get r ''environment'')"
    and "\<not> nullish (js_get (js_get r ''environment'') ''voc'')"
    and "convertible (js_get (js_get (js_get r ''environment'') ''voc'') ''value'')"
  shows "\<exists>as. check_voc th rt r now = Inr as"
proof -
  obtain hi where hi: "js_gt rt (js_get (js_get (js_get r ''environment'') ''voc'') ''value'')
      (max_t (th_voc th)) = Inr hi"
    using js_gt_convertible[OF assms(4)] by blast
  show ?thesis using assms(1,2,3) hi
    by (simp add: check_voc_def bind_err_def member_def opt_member_def)
qed

lemma check_posture_total: "\<not> nullish r \<Longrightarrow> \<exists>as. check_posture r now = Inr as"
  by (simp add: check_posture_def bind_err_def member_def)

lemma check_gas_total: "\<not> nullish r \<Longrightarrow> \<exists>as. check_gas r now = Inr as"
  by (simp add: check_gas_def bind_err_def member_def)

lemma check_audio_total: "\<not> nullish r \<Longrightarrow> \<exists>as. check_audio r now = Inr as"
  by (simp add: check_audio_def bind_err_def member_def)

lemma checkReading_total:
  assumes "sub_objects_present r"
    and "convertible (path r [''respiration'', ''value''])"
    and "convertible (path r [''bodyTemp'', ''value''])"
    and "convertible (path r [''environment'', ''co2'', ''value''])"
    and "convertible (path r [''environment'', ''voc'', ''value''])"
  shows "\<exists>as st'. checkReading st rt r now = Inr (as, st')"
proof -
  note p = assms(1)[unfolded sub_objects_present_def]
  from p have n: "\<not> nullish r" by simp
  have "\<exists>a. check_respiration (thresholds st) rt r now = Inr a"
    by (rule check_respiration_total) (use p assms(2) in simp_all)
  then obtain a1 where 1: "check_respiration (thresholds st) rt r now = Inr a1" by blast
  have "\<exists>a. check_co2 (thresholds st) rt r now = Inr a"
    by (rule check_co2_total) (use p assms(4) in simp_all)
  then obtain a2 where 2: "check_co2 (thresholds st) rt r now = Inr a2" by blast
  have "\<exists>a. check_bodyTemp (thresholds st) rt r now = Inr a"
    by (rule check_bodyTemp_total) (use p assms(3) in simp_all)
  then obtain a3 where 3: "check_bodyTemp (thresholds st) rt r now = Inr a3" by blast
  obtain a4 where 4: "check_posture r now = Inr a4" using check_posture_total[OF n] by blast
  have "\<exists>a. check_voc (thresholds st) rt r now = Inr a"
    by (rule check_voc_total) (use p assms(5) in simp_all)
  then obtain a5 where 5: "check_voc (thresholds st) rt r now = Inr a5" by blast
  obtain a6 where 6: "check_gas r now = Inr a6" using check_gas_total[OF n] by blast
  obtain a7 where 7: "check_audio r now = Inr a7" using check_audio_total[OF n] by blast
  show ?thesis
    by (simp add: checkReading_def evaluate_def bind_err_def 1 2 3 4 5 6 7)
qed

lemma convertible_coalesce_Null: "convertible v \<Longrightarrow> convertible (coalesce v Null)"
  by (simp add: coalesce_def)

lemma normalizeReading_sub_objects:
  assumes "normalizeReading data t = Inr r"
  shows "sub_objects_present r"
    and "path r [''respiration'', ''value''] =
         coalesce (opt_member (js_get data ''respiration'') ''value'') Null"
    and "path r [''bodyTemp'', ''value''] =
         coalesce (opt_member (js_get data ''body_temp'') ''value'') Null"
    and "path r [''environment'', ''co2'', ''value''] =
         coalesce (env_field data ''co2'' ''value'') Null"
    and "path r [''environment'', ''voc'', ''value''] =
         coalesce (env_field data ''voc'' ''value'') Null"
  using assms
  by (auto simp: normalizeReading_def Let_def sub_objects_present_def nullish_def env_field_def
      split: if_splits)

text \<open>
  Claim C10, as amended. Every Reading \<^verbatim>\<open>normalizeReading\<close> returns has the sub-objects
  \<^verbatim>\<open>checkReading\<close> reads without \<^verbatim>\<open>?.\<close>, and \<^verbatim>\<open>checkReading\<close> does not throw on it, for
  every state, thresholds and time, provided the measurement values of the payload
  (respiration, body temperature, CO2, VOC) convert to a primitive: every number, string,
  boolean, \<^verbatim>\<open>null\<close> and absent value does, and so does an object with no own property
  \<^verbatim>\<open>toString\<close>. The totality rests on the sub-objects: the guards compare an optionally
  chained value with \<^verbatim>\<open>null\<close>, which \<^verbatim>\<open>undefined\<close> passes, so on an object with no
  \<^verbatim>\<open>respiration\<close> field, and on one whose \<^verbatim>\<open>environment\<close> has no \<^verbatim>\<open>co2\<close> field, the read
  that follows the guard throws a TypeError.
\<close>

theorem checkReading_total_on_normalized:
  "(normalizeReading data t = Inr r \<and> list_all convertible (payload_measurements data) \<longrightarrow>
      sub_objects_present r \<and> (\<exists>as st'. checkReading st rt r now = Inr (as, st'))) \<and>
   checkReading st rt (Obj []) now = Inl TypeError \<and>
   checkReading st rt
     (Obj [(''respiration'', Obj [(''value'', Null)]), (''environment'', Obj [])]) now =
   Inl TypeError"
proof -
  have 1: "sub_objects_present r \<and> (\<exists>as st'. checkReading st rt r now = Inr (as, st'))"
    if n: "normalizeReading data t = Inr r"
      and c: "list_all convertible (payload_measurements data)"
  proof -
    note s = normalizeReading_sub_objects[OF n]
    from c have c4: "convertible (opt_member (js_get data ''respiration'') ''value'')"
      "convertible (opt_member (js_get data ''body_temp'') ''value'')"
      "convertible (env_field data ''co2'' ''value'')"
      "convertible (env_field data ''voc'' ''value'')"
      by (simp_all add: payload_measurements_def)
    have p1: "convertible (path r [''respiration'', ''value''])"
      unfolding s(2) by (rule convertible_coalesce_Null[OF c4(1)])
    have p2: "convertible (path r [''bodyTemp'', ''value''])"
      unfolding s(3) by (rule convertible_coalesce_Null[OF c4(2)])
    have p3: "convertible (path r [''environment'', ''co2'', ''value''])"
      unfolding s(4) by (rule convertible_coalesce_Null[OF c4(3)])
    have p4: "convertible (path r [''environment'', ''voc'', ''value''])"
      unfolding s(5) by (rule convertible_coalesce_Null[OF c4(4)])
    have "\<exists>as st'. checkReading st rt r now = Inr (as, st')"
      by (rule checkReading_total[OF s(1) p1 p2 p3 p4])
    then show ?thesis using s(1) by simp
  qed
  have 2: "checkReading st rt (Obj []) now = Inl TypeError"
    by (simp add: checkReading_def evaluate_def check_respiration_def bind_err_def
        member_def opt_member_def nullish_def)
  have 3: "checkReading st rt
     (Obj [(''respiration'', Obj [(''value'', Null)]), (''environment'', Obj [])]) now =
     Inl TypeError"
    by (simp add: checkReading_def evaluate_def check_respiration_def check_co2_def
        bind_err_def member_def opt_member_def nullish_def)
  show ?thesis using 1 2 3 by blast
qed

theorem checkReading_total_on_normalized_witness:
  "normalizeReading (Obj [(''respiration'', Obj [(''value'', Num (Fin 15))])]) 1000 =
     Inr apnea_reading \<and>
   list_all convertible
     (payload_measurements (Obj [(''respiration'', Obj [(''value'', Num (Fin 15))])])) \<and>
   sub_objects_present apnea_reading \<and>
   (\<exists>as st'. checkReading sample_state (\<lambda>v. NaN) apnea_reading 100000 = Inr (as, st'))"
proof -
  have n: "normalizeReading (Obj [(''respiration'', Obj [(''value'', Num (Fin 15))])]) 1000 =
     Inr apnea_reading"
    by (simp add: normalizeReading_def apnea_reading_def opt_member_def coalesce_def js_or_def
        nullish_def)
  have c: "list_all convertible
     (payload_measurements (Obj [(''respiration'', Obj [(''value'', Num (Fin 15))])]))"
    by (simp add: payload_measurements_def env_field_def opt_member_def coalesce_def nullish_def)
  from checkReading_total_on_normalized
    [of "Obj [(''respiration'', Obj [(''value'', Num (Fin 15))])]" 1000 apnea_reading
        sample_state "\<lambda>v. NaN" 100000]
  show ?thesis using n c by blast
qed

text \<open>
  The claim as stated fails: a payload whose respiration value is an object with an own
  property \<^verbatim>\<open>toString\<close> is normalized to a Reading with all its sub-objects, on which the
  comparison \<^verbatim>\<open>resp < this.thresholds.respiration.min\<close> throws a TypeError.
\<close>

theorem checkReading_throws_on_normalized_counterexample:
  "normalizeReading
     (Obj [(''respiration'', Obj [(''value'', Obj [(''toString'', Num (Fin 1))])])]) 1000 =
   Inr (Obj [(''timestamp'', Num (Fin 1000)),
             (''respiration'',
              Obj [(''value'', Obj [(''toString'', Num (Fin 1))]), (''unit'', Str ''rpm''),
                   (''confidence'', Num (Fin 1))]),
             (''audio'', Obj [(''state'', Str ''unknown''), (''level'', Num (Fin 0))]),
             (''bodyTemp'', Obj [(''value'', Null), (''unit'', Str ''C'')]),
             (''posture'', Obj [(''state'', Str ''unknown''), (''confidence'', Num (Fin 1))]),
             (''radar'', Obj [(''active'', Bool False), (''movement'', Num (Fin 0))]),
             (''environment'',
              Obj [(''temp'', Obj [(''value'', Null), (''unit'', Str ''C'')]),
                   (''co2'', Obj [(''value'', Null), (''unit'', Str ''ppm'')]),
                   (''voc'', Obj [(''value'', Null)]),
                   (''gas'', Obj [(''safe'', Bool True)])])]) \<and>
   checkReading sample_state (\<lambda>v. NaN)
     (Obj [(''timestamp'', Num (Fin 1000)),
           (''respiration'',
            Obj [(''value'', Obj [(''toString'', Num (Fin 1))]), (''unit'', Str ''rpm''),
                 (''confidence'', Num (Fin 1))]),
           (''audio'', Obj [(''state'', Str ''unknown''), (''level'', Num (Fin 0))]),
           (''bodyTemp'', Obj [(''value'', Null), (''unit'', Str ''C'')]),
           (''posture'', Obj [(''state'', Str ''unknown''), (''confidence'', Num (Fin 1))]),
           (''radar'', Obj [(''active'', Bool False), (''movement'', Num (Fin 0))]),
           (''environment'',
            Obj [(''temp'', Obj [(''value'', Null), (''unit'', Str ''C'')]),
                 (''co2'', Obj [(''value'', Null), (''unit'', Str ''ppm'')]),
                 (''voc'', Obj [(''value'', Null)]),
                 (''gas'', Obj [(''safe'', Bool True)])])])
     100000 = Inl TypeError"
  by (simp add: normalizeReading_def opt_member_def coalesce_def js_or_def nullish_def
      checkReading_def evaluate_def check_respiration_def bind_err_def member_def js_lt_def)

section \<open>Rounding to double\<close>

text \<open>The rules that evaluate \<open>fl\<close> on a given number.\<close>

lemmas fl_eval = fl_def expo_def pow2_def rne_def Let_def compute_bitlen















section \<open>Chart data and its statistics\<close>









text \<open>It returns when every value can be converted to a primitive.\<close>

lemma js_plus_returns:
  assumes "convertible a" and "convertible b"
  shows "\<exists>s. js_plus rt pr a b = Inr s \<and> convertible s"
  using assms by (simp add: js_plus_def)

lemma js_sum_returns:
  assumes "convertible acc" and "list_all convertible vs"
  shows "\<exists>s. js_sum rt pr acc vs = Inr s"
  using assms
proof (induction vs arbitrary: acc)
  case Nil
  then show ?case by simp
next
  case (Cons v vs)
  from Cons.prems have v: "convertible v" and vs: "list_all convertible vs" by simp_all
  from js_plus_returns[OF Cons.prems(1) v, of rt pr]
  obtain s where s: "js_plus rt pr acc v = Inr s" "convertible s" by blast
  from Cons.IH[OF s(2) vs] show ?case by (simp add: s(1) bind_err_def)
qed

lemma js_numbers_returns:
  assumes "list_all convertible vs"
  shows "\<exists>ns. js_numbers rt vs = Inr ns"
  using assms by (induction vs) (auto simp: js_number_def bind_err_def)

lemma calculateStats_returns:
  assumes "list_all convertible vs"
  shows "\<exists>st. calculateStats rt pr vs = Inr st"
proof -
  have "convertible (Num (Fin 0))" by simp
  from js_sum_returns[OF this assms, of rt pr] obtain s where
    s: "js_sum rt pr (Num (Fin 0)) vs = Inr s" by blast
  from js_numbers_returns[OF assms, of rt] obtain ns where n: "js_numbers rt vs = Inr ns"
    by blast
  show ?thesis by (simp add: calculateStats_def s n bind_err_def Let_def)
qed








text \<open>What \<^verbatim>\<open>getChartData\<close> does when the cache does not answer.\<close>

lemma getChartData_miss:
  assumes "cache_lookup tm (s @ ''_'' @ tr) now = None"
  shows "getChartData tm rt pr sm now s tr =
     (case sm of
        None \<Rightarrow> Inr (getEmptyData, tm)
      | Some storage \<Rightarrow>
          (case db storage of
             None \<Rightarrow> Inr (getEmptyData, tm)
           | Some d \<Rightarrow>
               (case getReadingsLastHours storage now (hours_of tr) of
                  Inl e \<Rightarrow> Inl e
                | Inr rs \<Rightarrow>
                    if rs = [] then Inr (getEmptyData, tm)
                    else
                      (case calculateStats rt pr (fst (snd (extractSensorData rs s))) of
                         Inl e \<Rightarrow> Inl e
                       | Inr computed \<Rightarrow>
                           (let result =
                                  \<lparr>points = fst (extractSensorData rs s),
                                   vals = fst (snd (extractSensorData rs s)),
                                   timestamps = snd (snd (extractSensorData rs s)),
                                   stats = computed,
                                   timeRange = Some tr, sensor = Some s, isEmpty = None\<rparr>
                            in Inr (result, cache_store tm (s @ ''_'' @ tr) result now))))))"
  using assms
  by (simp add: getChartData_def Let_def bind_err_def split: option.splits sum.splits prod.splits)

lemma getChartData_hit:
  assumes "cache_lookup tm (s @ ''_'' @ tr) now = Some c"
  shows "getChartData tm rt pr sm now s tr = Inr (c, tm)"
  using assms by (simp add: getChartData_def Let_def)

lemma getReadingsLastHours_no_db: "db storage = None \<Longrightarrow> getReadingsLastHours storage now h = Inl TypeError"
  by (simp add: getReadingsLastHours_def getReadings_def Let_def)

lemma getReadingsLastHours_ok:
  assumes "db storage = Some d" and "\<not> rejecting d"
  shows "\<exists>rs. getReadingsLastHours storage now (Some h) = Inr rs"
  using assms by (simp add: getReadingsLastHours_def getReadings_def Let_def)


lemma getChartData_returns:
  assumes "store_answers sm" and "hours_of tr = Some h"
    and "list_all convertible (window_values sm now tr s)"
  shows "\<exists>c tm'. getChartData tm rt pr sm now s tr = Inr (c, tm')"
proof (cases "cache_lookup tm (s @ ''_'' @ tr) now")
  case (Some c)
  then show ?thesis by (simp add: getChartData_hit)
next
  case None
  show ?thesis
  proof (cases sm)
    case n: None
    then show ?thesis unfolding getChartData_miss[OF None] by simp
  next
    case (Some storage)
    show ?thesis
    proof (cases "db storage")
      case n: None
      then show ?thesis using Some unfolding getChartData_miss[OF None] by simp
    next
      case d: (Some d)
      have "\<not> rejecting d" using assms(1) Some d by (simp add: store_answers_def)
      from getReadingsLastHours_ok[OF d this, of now h]
      obtain rs where rs: "getReadingsLastHours storage now (hours_of tr) = Inr rs"
        unfolding assms(2) by blast
      have "list_all convertible (fst (snd (extractSensorData rs s)))"
        using assms(3) Some rs by (simp add: window_values_def window_readings_def)
      from calculateStats_returns[OF this, of rt pr] obtain st where
        "calculateStats rt pr (fst (snd (extractSensorData rs s))) = Inr st" by blast
      then show ?thesis using Some d rs unfolding getChartData_miss[OF None]
        by (simp add: Let_def)
    qed
  qed
qed










text \<open>
  Rounding in the sum: \<open>10 ^ 16 + 1\<close> is no double and rounds to \<open>10 ^ 16\<close>, so the mean of
  \<open>10 ^ 16\<close>, \<open>1\<close> and \<open>- 10 ^ 16\<close> comes out as \<open>0\<close>.
\<close>

lemma calculateStats_absorption:
  "calculateStats rt pr [Num (Fin (10 ^ 16)), Num (Fin 1), Num (Fin (- (10 ^ 16)))] =
   Inr \<lparr>min_v = Some (Fin (- (10 ^ 16))), max_v = Some (Fin (10 ^ 16)), avg = Some (Fin 0),
        count = 3\<rparr>"
  by (simp add: calculateStats_def js_plus_def js_number_def bind_err_def math_min_def
      math_max_def round2_def fl_eval)

lemma window_readings_co2_store:
  "window_readings (Some co2_store) 100000 ''1h'' =
     [\<lparr>r_id = 2, r_timestamp = 98000, r_body = sample_of_co2 (json_number 500.005)\<rparr>,
      \<lparr>r_id = 1, r_timestamp = 99000, r_body = sample_of_co2 (json_number 450.126)\<rparr>,
      \<lparr>r_id = 3, r_timestamp = 99500, r_body = sample_of_co2 (json_number 36.675)\<rparr>]"
  by (simp add: window_readings_def getReadingsLastHours_def getReadings_def hours_of_def
      timeRanges_def co2_store_def Let_def)

lemma sensor_value_sample_of_co2: "sensor_value ''co2'' (sample_of_co2 v) = v"
  by (simp add: sensor_value_def sample_of_co2_def opt_member_def nullish_def)

lemma extractSensorData_co2_store:
  "extractSensorData (window_readings (Some co2_store) 100000 ''1h'') ''co2'' =
     ([(98000, json_number 500.005), (99000, json_number 450.126), (99500, json_number 36.675)],
      [json_number 500.005, json_number 450.126, json_number 36.675],
      [98000, 99000, 99500])"
  unfolding window_readings_co2_store
  by (simp add: sensor_value_sample_of_co2 json_number_def Let_def)


section \<open>The cache of the trend aggregator\<close>

lemma cache_lookup_after_store:
  assumes "k \<noteq> ''__proto__''"
  shows "cache_lookup (cache_store tm k c t1) k t =
         (if t - t1 < cacheExpiry tm then Some c else None)"
  using assms by (simp add: cache_lookup_def cache_store_def)

lemma cache_lookup_empty:
  "cache_lookup (tm\<lparr>cachedData := Map.empty, lastCacheTime := Map.empty\<rparr>) k t = None"
  by (simp add: cache_lookup_def)

lemma getChartData_cached_result:
  assumes "cache_lookup tm (s @ ''_'' @ tr) t1 = None"
    and "getChartData tm rt pr sm t1 s tr = Inr (c, tm1)"
    and "window_readings sm t1 tr \<noteq> []"
  shows "tm1 = cache_store tm (s @ ''_'' @ tr) c t1"
proof -
  from assms(3) obtain storage where sm: "sm = Some storage"
    by (cases sm) (simp_all add: window_readings_def)
  from assms(3) sm obtain rs where rs: "getReadingsLastHours storage t1 (hours_of tr) = Inr rs"
    and ne: "rs \<noteq> []"
    by (cases "getReadingsLastHours storage t1 (hours_of tr)") (simp_all add: window_readings_def)
  from rs obtain d where d: "db storage = Some d"
    by (cases "db storage") (simp_all add: getReadingsLastHours_no_db)
  show ?thesis
    using assms(2) sm rs ne d unfolding getChartData_miss[OF assms(1)]
    by (auto simp: Let_def split: sum.splits)
qed

text \<open>An empty result is returned without being cached: the manager is left as it was.\<close>

lemma getChartData_empty_not_cached:
  assumes "cache_lookup tm (s @ ''_'' @ tr) now = None"
    and "getChartData tm rt pr sm now s tr = Inr (c, tm')"
    and "window_readings sm now tr = []"
  shows "c = getEmptyData \<and> tm' = tm"
proof (cases sm)
  case None
  then show ?thesis using assms(2) unfolding getChartData_miss[OF assms(1)] by simp
next
  case (Some storage)
  show ?thesis
  proof (cases "db storage")
    case None
    then show ?thesis using Some assms(2) unfolding getChartData_miss[OF assms(1)] by simp
  next
    case d: (Some d)
    show ?thesis
    proof (cases "getReadingsLastHours storage now (hours_of tr)")
      case (Inl e)
      then show ?thesis using Some d assms(2) unfolding getChartData_miss[OF assms(1)] by simp
    next
      case (Inr rs)
      then have "rs = []" using assms(3) Some by (simp add: window_readings_def)
      then show ?thesis using Some d Inr assms(2) unfolding getChartData_miss[OF assms(1)]
        by simp
    qed
  qed
qed

text \<open>
  Claim C8, as amended. The first call computes its result (the cache does not answer) from
  at least one reading of the window, and the cache key is not \<^verbatim>\<open>__proto__\<close>. Then every call
  with the same arguments made within the TTL of that computation returns the same object and
  leaves the manager as it is, whatever the store holds by then; and a call made once the TTL
  has elapsed returns what a manager with an empty cache returns: it is computed from the
  store anew.
\<close>

theorem getChartData_cache_within_ttl:
  assumes "cache_lookup tm (s @ ''_'' @ tr) t1 = None"
    and "getChartData tm rt pr sm t1 s tr = Inr (c, tm1)"
    and "window_readings sm t1 tr \<noteq> []"
    and "s @ ''_'' @ tr \<noteq> ''__proto__''"
  shows "(t2 - t1 < cacheExpiry tm \<longrightarrow> getChartData tm1 rt pr sm' t2 s tr = Inr (c, tm1)) \<and>
         (cacheExpiry tm \<le> t3 - t1 \<longrightarrow>
            cache_lookup tm1 (s @ ''_'' @ tr) t3 = None \<and>
            map_sum id fst (getChartData tm1 rt pr sm' t3 s tr) =
            map_sum id fst
              (getChartData (tm1\<lparr>cachedData := Map.empty, lastCacheTime := Map.empty\<rparr>)
                 rt pr sm' t3 s tr))"
proof -
  note t = getChartData_cached_result[OF assms(1,2,3)]
  have l: "cache_lookup tm1 (s @ ''_'' @ tr) t =
           (if t - t1 < cacheExpiry tm then Some c else None)" for t
    unfolding t by (rule cache_lookup_after_store[OF assms(4)])
  have 1: "getChartData tm1 rt pr sm' t2 s tr = Inr (c, tm1)" if "t2 - t1 < cacheExpiry tm"
  proof (rule getChartData_hit)
    show "cache_lookup tm1 (s @ ''_'' @ tr) t2 = Some c" unfolding l using that by simp
  qed
  have 2: "cache_lookup tm1 (s @ ''_'' @ tr) t3 = None" if "cacheExpiry tm \<le> t3 - t1"
    unfolding l using that by simp
  have 3: "map_sum id fst (getChartData tm1 rt pr sm' t3 s tr) =
           map_sum id fst
             (getChartData (tm1\<lparr>cachedData := Map.empty, lastCacheTime := Map.empty\<rparr>)
                rt pr sm' t3 s tr)" if "cacheExpiry tm \<le> t3 - t1"
    unfolding getChartData_miss[OF 2[OF that]] getChartData_miss[OF cache_lookup_empty]
    by (simp add: Let_def split: option.splits sum.splits)
  show ?thesis using 1 2 3 by blast
qed

theorem getChartData_cache_within_ttl_witness:
  "cache_lookup new_trends_manager (''co2'' @ ''_'' @ ''1h'') 100000 = None \<and>
   window_readings (Some co2_store) 100000 ''1h'' \<noteq> [] \<and>
   ''co2'' @ ''_'' @ ''1h'' \<noteq> ''__proto__'' \<and>
   110000 - 100000 < cacheExpiry new_trends_manager \<and>
   (\<exists>c tm1.
      getChartData new_trends_manager (\<lambda>v. NaN) (\<lambda>v. []) (Some co2_store) 100000
        ''co2'' ''1h'' = Inr (c, tm1) \<and>
      getChartData tm1 (\<lambda>v. NaN) (\<lambda>v. []) (Some one_reading_store) 110000
        ''co2'' ''1h'' = Inr (c, tm1))"
proof -
  define rt :: runtime where "rt = (\<lambda>v. NaN)"
  define pr :: printer where "pr = (\<lambda>v. [])"
  have m: "cache_lookup new_trends_manager (''co2'' @ ''_'' @ ''1h'') 100000 = None"
    by (simp add: cache_lookup_def new_trends_manager_def)
  have w: "window_readings (Some co2_store) 100000 ''1h'' \<noteq> []"
    by (simp add: window_readings_co2_store)
  have k: "''co2'' @ ''_'' @ ''1h'' \<noteq> ''__proto__''" by simp
  have x: "110000 - 100000 < cacheExpiry new_trends_manager"
    by (simp add: new_trends_manager_def)
  have sa: "store_answers (Some co2_store)" by (simp add: store_answers_def co2_store_def)
  have ho: "hours_of ''1h'' = Some 1" by (simp add: hours_of_def timeRanges_def)
  have cv: "list_all convertible (window_values (Some co2_store) 100000 ''1h'' ''co2'')"
    by (simp add: window_values_def extractSensorData_co2_store json_number_def)
  from getChartData_returns[OF sa ho cv] obtain c tm1 where
    g: "getChartData new_trends_manager rt pr (Some co2_store) 100000 ''co2'' ''1h'' =
        Inr (c, tm1)"
    by blast
  from getChartData_cache_within_ttl[OF m g w k, of 110000 "Some one_reading_store"] x
  have "getChartData tm1 rt pr (Some one_reading_store) 110000 ''co2'' ''1h'' = Inr (c, tm1)"
    by simp
  then show ?thesis using m w k x g unfolding rt_def pr_def by blast
qed

text \<open>
  The claim as stated fails: on the empty store the first call returns the empty data and
  caches nothing; a reading is saved; the second call, 10 s after the first, returns another
  object, computed from the store.
\<close>

theorem getChartData_empty_not_cached_counterexample:
  "getChartData new_trends_manager (\<lambda>v. NaN) (\<lambda>v. []) (Some empty_store) 100000
     ''co2'' ''1h'' =
     Inr (getEmptyData, new_trends_manager) \<and>
   saveReading empty_store 105000 (Some 105000) (sample_of_co2 (Num (Fin 450))) =
     Inr (1, one_reading_store) \<and>
   map_sum id fst
     (getChartData new_trends_manager (\<lambda>v. NaN) (\<lambda>v. []) (Some one_reading_store) 110000
        ''co2'' ''1h'') =
     Inr \<lparr>points = [(105000, Num (Fin 450))], vals = [Num (Fin 450)],
          timestamps = [105000],
          stats = \<lparr>min_v = Some (Fin 450), max_v = Some (Fin 450), avg = Some (Fin 450),
                    count = 1\<rparr>,
          timeRange = Some ''1h'', sensor = Some ''co2'', isEmpty = None\<rparr>"
proof -
  define rt :: runtime where "rt = (\<lambda>v. NaN)"
  define pr :: printer where "pr = (\<lambda>v. [])"
  have 1: "getChartData new_trends_manager rt pr (Some empty_store) 100000 ''co2'' ''1h'' =
     Inr (getEmptyData, new_trends_manager)"
    by (simp add: getChartData_def cache_lookup_def new_trends_manager_def empty_store_def
        empty_database_def getReadingsLastHours_def getReadings_def hours_of_def timeRanges_def
        bind_err_def Let_def)
  have 2: "saveReading empty_store 105000 (Some 105000) (sample_of_co2 (Num (Fin 450))) =
     Inr (1, one_reading_store)"
    by (simp add: saveReading_def cleanupOldReadings_def empty_store_def empty_database_def
        one_reading_store_def timestamp_or_now_def Let_def)
  have m: "cache_lookup new_trends_manager (''co2'' @ ''_'' @ ''1h'') 110000 = None"
    by (simp add: cache_lookup_def new_trends_manager_def)
  obtain d where d: "db one_reading_store = Some d" by (simp add: one_reading_store_def)
  have r: "getReadingsLastHours one_reading_store 110000 (hours_of ''1h'') =
           Inr [\<lparr>r_id = 1, r_timestamp = 105000, r_body = sample_of_co2 (Num (Fin 450))\<rparr>]"
    by (simp add: getReadingsLastHours_def getReadings_def hours_of_def timeRanges_def
        one_reading_store_def Let_def)
  have e: "extractSensorData
             [\<lparr>r_id = 1, r_timestamp = 105000, r_body = sample_of_co2 (Num (Fin 450))\<rparr>]
             ''co2'' =
           ([(105000, Num (Fin 450))], [Num (Fin 450)], [105000])"
    by (simp add: sensor_value_sample_of_co2 Let_def)
  have c: "calculateStats rt pr [Num (Fin 450)] =
     Inr \<lparr>min_v = Some (Fin 450), max_v = Some (Fin 450), avg = Some (Fin 450), count = 1\<rparr>"
    by (simp add: calculateStats_def js_plus_def js_number_def bind_err_def math_min_def
        math_max_def round2_def fl_eval)
  have 3: "map_sum id fst
     (getChartData new_trends_manager rt pr (Some one_reading_store) 110000 ''co2'' ''1h'') =
     Inr \<lparr>points = [(105000, Num (Fin 450))], vals = [Num (Fin 450)],
          timestamps = [105000],
          stats = \<lparr>min_v = Some (Fin 450), max_v = Some (Fin 450), avg = Some (Fin 450),
                    count = 1\<rparr>,
          timeRange = Some ''1h'', sensor = Some ''co2'', isEmpty = None\<rparr>"
    unfolding getChartData_miss[OF m]
    by (simp only: d r e c Let_def option.case sum.case list.distinct if_False fst_conv
        snd_conv map_sum.simps)
  show ?thesis using 1 2 3 unfolding rt_def pr_def by simp
qed
section \<open>Downsampling\<close>

lemma ceil_div_step:
  assumes "0 < s" "0 < d"
  shows "ceil_div d s = Suc (ceil_div (d - s) s)"
proof (cases "s \<le> d")
  case True
  then have "d + s - 1 = (d - s + s - 1) + s" using assms by arith
  then have "(d + s - 1) div s = (d - s + s - 1) div s + 1"
    using assms(1) by (metis div_add_self2 less_numeral_extra(3))
  then show ?thesis unfolding ceil_div_def by simp
next
  case False
  then have a: "d - s = 0" by arith
  from False assms have "s * 1 \<le> d + s - 1" "d + s - 1 < s * Suc 1" by simp_all
  then have "(d + s - 1) div s = 1"
    by (rule div_nat_eqI)
  moreover have "(0 + s - 1) div s = 0" using assms(1) by simp
  ultimately show ?thesis unfolding ceil_div_def a by simp
qed

lemma sample_loop_eq:
  assumes "0 < s"
  shows "sample_loop s n i xs acc =
         Some (acc @ map (\<lambda>k. js_at xs (i + k * s)) [0..<ceil_div (n - i) s])"
proof (induction "n - i" arbitrary: i acc rule: less_induct)
  case less
  show ?case
  proof (cases "i < n")
    case False
    then have "ceil_div (n - i) s = 0" using assms by (simp add: ceil_div_def)
    with False show ?thesis by (subst sample_loop.simps) simp
  next
    case True
    have lt: "n - (i + s) < n - i" using True assms by arith
    have c: "ceil_div (n - i) s = Suc (ceil_div (n - (i + s)) s)"
      using ceil_div_step[of s "n - i"] assms True by simp
    have "sample_loop s n i xs acc = sample_loop s n (i + s) xs (acc @ [js_at xs i])"
      using True by (subst sample_loop.simps) simp
    also have "\<dots> = Some ((acc @ [js_at xs i]) @
        map (\<lambda>k. js_at xs (i + s + k * s)) [0..<ceil_div (n - (i + s)) s])"
      by (rule less[OF lt])
    also have "\<dots> = Some (acc @ map (\<lambda>k. js_at xs (i + k * s)) [0..<ceil_div (n - i) s])"
      unfolding c by (simp add: map_upt_Suc add.assoc del: upt_Suc)
    finally show ?thesis .
  qed
qed

lemma sample_loop_strided:
  "0 < s \<Longrightarrow> sample_loop s n 0 xs [] = Some (map (js_at xs) (strided n s))"
  by (simp add: sample_loop_eq strided_def comp_def)

lemma ceil_div_le_iff: "0 < s \<Longrightarrow> k < ceil_div n s \<longleftrightarrow> k * s < n"
proof -
  assume s: "0 < s"
  have "k < (n + s - 1) div s \<longleftrightarrow> Suc k \<le> (n + s - 1) div s" by arith
  also have "\<dots> \<longleftrightarrow> Suc k * s \<le> n + s - 1"
    using s by (simp add: less_eq_div_iff_mult_less_eq)
  also have "\<dots> \<longleftrightarrow> k * s < n" using s by (cases n) auto
  finally show ?thesis by (simp add: ceil_div_def)
qed

lemma set_strided: "0 < s \<Longrightarrow> set (strided n s) = {i. i < n \<and> s dvd i}"
  by (auto simp: strided_def ceil_div_le_iff dvd_def mult.commute)

lemma sorted_strided: "0 < s \<Longrightarrow> sorted_wrt (<) (strided n s)"
  by (simp add: strided_def sorted_wrt_map)

lemma length_strided: "length (strided n s) = ceil_div n s"
  by (simp add: strided_def)

lemma ceil_div_pos: "0 < m \<Longrightarrow> 0 < n \<Longrightarrow> 0 < ceil_div n m"
  using ceil_div_le_iff[of m 0 n] by simp

lemma le_mult_ceil_div: "0 < m \<Longrightarrow> n \<le> ceil_div n m * m"
  using ceil_div_le_iff[of m "ceil_div n m" n] by (simp add: not_less)

lemma ceil_div_ceil_div_le:
  assumes "0 < m" "0 < n"
  shows "ceil_div n (ceil_div n m) \<le> m"
proof -
  have s: "0 < ceil_div n m" using assms by (rule ceil_div_pos)
  have "\<not> m * ceil_div n m < n" using le_mult_ceil_div[OF assms(1), of n] by (simp add: mult.commute)
  then have "\<not> m < ceil_div n (ceil_div n m)" using ceil_div_le_iff[OF s, of m n] by simp
  then show ?thesis by simp
qed

lemma map_js_at_in_range:
  "list_all (\<lambda>i. i < length xs) idx \<Longrightarrow> map (js_at xs) idx = map ((!) xs) idx"
  by (induction idx) (auto simp: js_at_def)

text \<open>
  Claim C9. For every series and every \<open>maxPoints \<ge> 1\<close>: a series of at most \<open>maxPoints\<close>
  entries is returned unchanged; a longer one, of \<open>n\<close> entries, is cut down to the entries at
  the indices \<open>0, s, 2s, ...\<close> below \<open>n\<close>, with \<open>s = ceil (n / maxPoints)\<close>: these are all the
  multiples of \<open>s\<close> below \<open>n\<close>, in increasing order, at most \<open>maxPoints\<close> of them, and every
  one is an entry of \<^verbatim>\<open>data.points\<close>. In both cases the call returns and the \<^verbatim>\<open>stats\<close>
  field of the result is that of the argument.
\<close>

theorem downsample_spec:
  assumes "1 \<le> maxPoints"
  shows "(length (points data) \<le> maxPoints \<longrightarrow> downsample data maxPoints = Some data) \<and>
         (maxPoints < length (points data) \<longrightarrow>
            (let n = length (points data);
                 idx = strided n (ceil_div n maxPoints)
             in downsample data maxPoints =
                  Some (data\<lparr>points := map (js_at (points data)) idx,
                             vals := map (js_at (vals data)) idx,
                             timestamps := map (js_at (timestamps data)) idx\<rparr>)
                \<and> set idx = {i. i < n \<and> ceil_div n maxPoints dvd i}
                \<and> sorted_wrt (<) idx
                \<and> length idx \<le> maxPoints
                \<and> map (js_at (points data)) idx = map ((!) (points data)) idx)) \<and>
         (case downsample data maxPoints of None \<Rightarrow> False | Some d \<Rightarrow> stats d = stats data)"
proof -
  have m: "0 < maxPoints" using assms by simp
  show ?thesis
  proof (cases "length (points data) \<le> maxPoints")
    case True
    then show ?thesis by (simp add: downsample_def)
  next
    case False
    then have n: "0 < length (points data)" by arith
    have s: "0 < ceil_div (length (points data)) maxPoints" using m n by (rule ceil_div_pos)
    have d: "downsample data maxPoints =
          Some (data\<lparr>points := map (js_at (points data)) (strided (length (points data)) (ceil_div (length (points data)) maxPoints)),
                     vals := map (js_at (vals data)) (strided (length (points data)) (ceil_div (length (points data)) maxPoints)),
                     timestamps := map (js_at (timestamps data)) (strided (length (points data)) (ceil_div (length (points data)) maxPoints))\<rparr>)"
      using False m s by (simp add: downsample_def Let_def sample_loop_strided)
    have r: "list_all (\<lambda>i. i < length (points data)) (strided (length (points data)) (ceil_div (length (points data)) maxPoints))"
      using set_strided[OF s, of "length (points data)"] by (simp add: list_all_iff)
    show ?thesis
      using False d set_strided[OF s] sorted_strided[OF s] ceil_div_ceil_div_le[OF m n]
        map_js_at_in_range[OF r]
      by (simp add: Let_def length_strided)
  qed
qed

theorem downsample_spec_witness:
  "(1::nat) \<le> 4 \<and>
   downsample
     \<lparr>points = map Some [10, 11, 12, 13, 14, 15, 16, 17, 18, 19 :: int],
      vals = map Some [0, 1, 2, 3, 4, 5, 6, 7, 8, 9 :: int],
      timestamps = map Some [20, 21, 22, 23, 24, 25, 26, 27, 28, 29 :: int],
      stats = \<lparr>min_v = Some (Fin 0), max_v = Some (Fin 9), avg = Some (Fin 4.5), count = 10\<rparr>,
      timeRange = Some ''1h'', sensor = Some ''co2'', isEmpty = None\<rparr> 4 =
   Some
     \<lparr>points = [Some 10, Some 13, Some 16, Some 19],
      vals = [Some 0, Some 3, Some 6, Some 9],
      timestamps = [Some 20, Some 23, Some 26, Some 29],
      stats = \<lparr>min_v = Some (Fin 0), max_v = Some (Fin 9), avg = Some (Fin 4.5), count = 10\<rparr>,
      timeRange = Some ''1h'', sensor = Some ''co2'', isEmpty = None\<rparr>"
proof -
  define X :: "(int option, int option, int option) chart" where
    "X = \<lparr>points = map Some [10, 11, 12, 13, 14, 15, 16, 17, 18, 19 :: int],
      vals = map Some [0, 1, 2, 3, 4, 5, 6, 7, 8, 9 :: int],
      timestamps = map Some [20, 21, 22, 23, 24, 25, 26, 27, 28, 29 :: int],
      stats = \<lparr>min_v = Some (Fin 0), max_v = Some (Fin 9), avg = Some (Fin 4.5), count = 10\<rparr>,
      timeRange = Some ''1h'', sensor = Some ''co2'', isEmpty = None\<rparr>"
  have len: "length (points X) = 10" by (simp add: X_def)
  have s: "strided 10 (ceil_div 10 4) = [0, 3, 6, 9]" by code_simp
  have "downsample X 4 =
      Some (X\<lparr>points := map (js_at (points X)) [0, 3, 6, 9],
               vals := map (js_at (vals X)) [0, 3, 6, 9],
               timestamps := map (js_at (timestamps X)) [0, 3, 6, 9]\<rparr>)"
    using downsample_spec [of 4 X] by (simp add: len s Let_def)
  then show ?thesis by (simp add: X_def js_at_def)
qed

end
